theory Spec2Isabelle
  imports Main "HOL-Library.Char_ord" "HOL-Library.List_Lexorder" "HOL-Library.Multiset"
begin

section \<open>Go strings and the library functions the package calls\<close>

text \<open>
  A Go \<open>string\<close> and a \<open>[]byte\<close> are both sequences of bytes; both are \<open>char list\<close>
  here. The functions of this section are those of Go's \<open>strings\<close> and \<open>path\<close>
  packages that \<open>awssume.go\<close> calls.
\<close>

type_synonym bytes = string

definition strings_HasPrefix :: "string \<Rightarrow> string \<Rightarrow> bool" where
  "strings_HasPrefix s p = (take (length p) s = p)"

definition strings_HasSuffix :: "string \<Rightarrow> string \<Rightarrow> bool" where
  "strings_HasSuffix s suf =
     (length suf \<le> length s \<and> drop (length s - length suf) s = suf)"

definition strings_TrimPrefix :: "string \<Rightarrow> string \<Rightarrow> string" where
  "strings_TrimPrefix s p = (if strings_HasPrefix s p then drop (length p) s else s)"

definition strings_TrimSuffix :: "string \<Rightarrow> string \<Rightarrow> string" where
  "strings_TrimSuffix s suf =
     (if strings_HasSuffix s suf then take (length s - length suf) s else s)"

fun strings_Join :: "string list \<Rightarrow> string \<Rightarrow> string" where
  "strings_Join [] sep = []"
| "strings_Join [x] sep = x"
| "strings_Join (x # y # ys) sep = x @ sep @ strings_Join (y # ys) sep"

text \<open>
  \<open>strings.SplitN(s, sep, n)\<close> for a one-byte separator: at most \<open>n\<close> pieces, the
  last one being the unsplit remainder; \<open>n = 0\<close> gives no piece at all.
\<close>

fun strings_SplitN :: "string \<Rightarrow> char \<Rightarrow> nat \<Rightarrow> string list" where
  "strings_SplitN s c 0 = []"
| "strings_SplitN s c (Suc 0) = [s]"
| "strings_SplitN s c (Suc (Suc n)) =
     (if c \<in> set s
      then takeWhile (\<lambda>x. x \<noteq> c) s # strings_SplitN (tl (dropWhile (\<lambda>x. x \<noteq> c) s)) c (Suc n)
      else [s])"

text \<open>
  \<open>path.Ext\<close>: the suffix beginning at the final dot in the final slash-separated
  element of the path, empty when that element has no dot. The Go loop walks the index
  down from the end and stops at the first slash; here the walk is over the reversed
  string, \<open>acc\<close> collecting what has been passed.
\<close>

fun path_Ext_loop :: "string \<Rightarrow> string \<Rightarrow> string" where
  "path_Ext_loop [] acc = []"
| "path_Ext_loop (c # rest) acc =
     (if c = CHR ''/'' then []
      else if c = CHR ''.'' then c # acc
      else path_Ext_loop rest (c # acc))"

definition path_Ext :: "string \<Rightarrow> string" where
  "path_Ext p = path_Ext_loop (rev p) []"


section \<open>Configuration formats\<close>

text \<open>
  \<open>type ConfigFormat int\<close> with the constants \<open>JSON\<close>, \<open>TOML\<close>, \<open>YAML\<close>, \<open>Unknown\<close>
  numbered by \<open>iota\<close>.
\<close>

type_synonym ConfigFormat = int

definition JSON :: ConfigFormat where "JSON = 0"
definition TOML :: ConfigFormat where "TOML = 1"
definition YAML :: ConfigFormat where "YAML = 2"
definition Unknown :: ConfigFormat where "Unknown = 3"

text \<open>
  \<open>func (cf *ConfigFormat) FromExt(ext string)\<close> overwrites the receiver; the model
  returns the value written.
\<close>

definition FromExt :: "ConfigFormat \<Rightarrow> string \<Rightarrow> ConfigFormat" where
  "FromExt cf ext =
     (let e = strings_TrimPrefix ext ''.'' in
      if e = ''json'' then JSON
      else if e = ''toml'' then TOML
      else if e = ''yaml'' \<or> e = ''yml'' then YAML
      else Unknown)"

definition ConfigFormat_String :: "ConfigFormat \<Rightarrow> string" where
  "ConfigFormat_String cf =
     (if cf = JSON then ''json''
      else if cf = TOML then ''toml''
      else if cf = YAML then ''yaml''
      else if cf = Unknown then ''UNKNOWN''
      else '''')"



section \<open>Errors\<close>

text \<open>
  Go errors as values. The sentinel errors and the \<open>fmt.Errorf\<close> formats of
  \<open>awssume.go\<close> are constructors of the same names; a format that wraps another error
  with \<open>%w\<close> carries it. \<open>arn_invalidPrefix\<close> and \<open>arn_invalidSections\<close> are the two
  errors of the SDK's \<open>arn\<close> package, \<open>ExitError\<close> is \<open>*exec.ExitError\<close> with the child's
  exit status, \<open>errTooFewArguments\<close> and \<open>errCurrentUser\<close> are the two errors of the
  command-line program, \<open>ErrNotExist\<close> is \<open>os.ErrNotExist\<close>, \<open>MarshalerError\<close> is the error of
  \<open>encoding/json\<close> for a \<open>MarshalJSON\<close> whose output is not JSON, and \<open>LibError\<close> stands
  for any other error of an external collaborator (filesystem, codec, STS, process
  start), named by its message.
\<close>

datatype error =
    ErrCommandMissing
  | ErrNoArgs
  | ErrNoShell
  | ErrUnsupportedConfigFormat
  | ErrMultipleConfigs
  | ErrUnexpected
  | ErrCheckFileExists string error
  | ErrCreatingFile error
  | ErrGetRoleByAlias string error
  | ErrLoadAWSConfig error
  | ErrMarshal error
  | ErrNewConfig error
  | ErrReadingFile string error
  | ErrRoleExists string
  | ErrRoleNotFound string
  | ErrSTSAssumeRole string error
  | ErrUnmarshal error
  | ErrWritingToFile string error
  | errTooFewArguments
  | errCurrentUser error
  | arn_invalidPrefix
  | arn_invalidSections
  | ExitError int
  | ErrNotExist
  | MarshalerError
  | LibError string


section \<open>Resource identifiers\<close>

subsection \<open>The SDK's \<open>arn\<close> package\<close>

text \<open>
  \<open>ParseARN\<close> and \<open>ARN.String\<close> delegate to the package
  \<open>github.com/aws/aws-sdk-go-v2/aws/arn\<close>, which is not among the sources. Its
  structure and its two functions are modelled from the specification.
\<close>

text \<open>
  Modelled from the spec: the structure \<open>arn.ARN\<close>. A resource identifier has the
  fields partition, service, region, accountID and resource.
\<close>

record arn_ARN =
  Partition :: string
  Service :: string
  Region :: string
  AccountID :: string
  Resource :: string

text \<open>
  Modelled from the spec: the zero value of \<open>arn.ARN\<close>, returned beside an error (the
  package's tests compare what a failed parse returns with five empty fields).
\<close>

definition arn_zero :: arn_ARN where
  "arn_zero = \<lparr>Partition = [], Service = [], Region = [], AccountID = [], Resource = []\<rparr>"

text \<open>
  Modelled from the spec: \<open>arn.Parse\<close>. Parsing validates the \<open>arn:\<close> prefix and the
  6-segment colon structure, and fails when the input lacks the prefix or has fewer than
  6 colon-delimited segments. The split is into at most six pieces, so that the resource
  is everything after the fifth colon.
\<close>

definition arn_Parse :: "string \<Rightarrow> arn_ARN \<times> error option" where
  "arn_Parse s =
     (if \<not> strings_HasPrefix s ''arn:'' then (arn_zero, Some arn_invalidPrefix)
      else let sections = strings_SplitN s (CHR '':'') 6 in
        if length sections \<noteq> 6 then (arn_zero, Some arn_invalidSections)
        else (\<lparr>Partition = sections ! 1, Service = sections ! 2, Region = sections ! 3,
               AccountID = sections ! 4, Resource = sections ! 5\<rparr>, None))"

text \<open>
  Modelled from the spec: \<open>arn.ARN.String\<close>. The identifier is written
  \<open>arn:partition:service:region:accountID:resource\<close>; this always succeeds.
\<close>

definition arn_String :: "arn_ARN \<Rightarrow> string" where
  "arn_String a =
     ''arn:'' @ Partition a @ '':'' @ Service a @ '':'' @ Region a @ '':''
       @ AccountID a @ '':'' @ Resource a"

subsection \<open>The wrapper \<open>ARN\<close> of \<open>awssume.go\<close>\<close>

text \<open>
  \<open>type ARN struct{ *arn.ARN }\<close>. \<open>ParseARN\<close> always stores the address of the
  structure \<open>arn.Parse\<close> returned, so the wrapper is modelled by the structure it points
  to. (A wrapper with a nil pointer inside, on which \<open>String\<close> would dereference nil, is
  outside the model.) \<open>ParseARN\<close> returns the wrapper and the error together, as the Go
  function does.
\<close>

type_synonym ARN = arn_ARN

definition ParseARN :: "string \<Rightarrow> ARN \<times> error option" where
  "ParseARN s = (let (a, err) = arn_Parse s in (a, err))"

definition ARN_String :: "ARN \<Rightarrow> string" where
  "ARN_String a = arn_String a"

definition ARN_MarshalYAML :: "ARN \<Rightarrow> string \<times> error option" where
  "ARN_MarshalYAML a = (ARN_String a, None)"

text \<open>
  \<open>UnmarshalYAML\<close> receives the YAML node; only its \<open>Value\<close> is read. The receiver is
  overwritten with what \<open>ParseARN\<close> returns, also when it fails.
\<close>

definition ARN_UnmarshalYAML :: "ARN \<Rightarrow> string \<Rightarrow> ARN \<times> error option" where
  "ARN_UnmarshalYAML a n_Value = ParseARN n_Value"

definition ARN_MarshalJSON :: "ARN \<Rightarrow> bytes \<times> error option" where
  "ARN_MarshalJSON a = (ARN_String a, None)"


section \<open>Roles and the registry\<close>

text \<open>
  \<open>Role.ARN\<close> is a \<open>*ARN\<close>: \<open>None\<close> is the nil pointer. \<open>Config.Roles\<close> is a slice of
  pointers to roles, none of them nil; no method of \<open>Config\<close> writes through such a
  pointer, so the slice is a list of role values. The \<open>fs\<close> field of \<open>Config\<close> is a
  handle on the filesystem; the filesystem state is passed beside the configuration to
  the functions that use it.
\<close>

record Role =
  Alias :: string
  ARN :: "ARN option"
  SessionName :: string

record Config =
  Path :: string
  Format :: ConfigFormat
  Roles :: "Role list"

definition GetAlias :: "Role \<Rightarrow> string" where "GetAlias r = Alias r"
definition SetAlias :: "Role \<Rightarrow> string \<Rightarrow> Role" where "SetAlias r alias = r\<lparr>Alias := alias\<rparr>"
definition GetARN :: "Role \<Rightarrow> ARN option" where "GetARN r = ARN r"
definition SetARN :: "Role \<Rightarrow> ARN option \<Rightarrow> Role" where "SetARN r a = r\<lparr>ARN := a\<rparr>"
definition GetSessionName :: "Role \<Rightarrow> string" where "GetSessionName r = SessionName r"
definition SetSessionName :: "Role \<Rightarrow> string \<Rightarrow> Role" where
  "SetSessionName r sname = r\<lparr>SessionName := sname\<rparr>"

definition GetPath :: "Config \<Rightarrow> string" where "GetPath c = Path c"
definition SetPath :: "Config \<Rightarrow> string \<Rightarrow> Config" where "SetPath c p = c\<lparr>Path := p\<rparr>"
definition GetFormat :: "Config \<Rightarrow> ConfigFormat" where "GetFormat c = Format c"
definition SetFormat :: "Config \<Rightarrow> ConfigFormat \<Rightarrow> Config" where
  "SetFormat c format = c\<lparr>Format := format\<rparr>"
definition GetRoles :: "Config \<Rightarrow> Role list" where "GetRoles c = Roles c"

text \<open>
  The methods that can fail return the configuration after the call together with the
  error (\<open>None\<close> is Go's \<open>nil\<close>), so that what a failed call leaves behind is visible.
\<close>

fun GetRoleByAlias_loop :: "Role list \<Rightarrow> string \<Rightarrow> Role option \<times> error option" where
  "GetRoleByAlias_loop [] alias = (None, Some (ErrRoleNotFound alias))"
| "GetRoleByAlias_loop (role # rest) alias =
     (if GetAlias role = alias then (Some role, None) else GetRoleByAlias_loop rest alias)"

definition GetRoleByAlias :: "Config \<Rightarrow> string \<Rightarrow> Role option \<times> error option" where
  "GetRoleByAlias c alias = GetRoleByAlias_loop (Roles c) alias"

text \<open>
  Go's built-in \<open>copy(dst, src)\<close>: the first \<open>min (len dst) (len src)\<close> elements of
  \<open>dst\<close> are overwritten, and their number is returned.
\<close>

definition go_copy :: "'a list \<Rightarrow> 'a list \<Rightarrow> 'a list \<times> nat" where
  "go_copy dst src =
     (let n = min (length dst) (length src) in (take n src @ drop n dst, n))"

text \<open>
  \<open>c.Roles[:i+copy(c.Roles[i:], c.Roles[i+1:])]\<close>: \<open>c.Roles[i:]\<close> shares its array
  with \<open>c.Roles\<close>, so the copy rewrites \<open>c.Roles\<close> from index \<open>i\<close> on; the slice
  expression then keeps the first \<open>i + n\<close> elements.
\<close>

definition remove_at :: "Role list \<Rightarrow> nat \<Rightarrow> Role list" where
  "remove_at roles i =
     (let (dst, n) = go_copy (drop i roles) (drop (i + 1) roles)
      in take (i + n) (take i roles @ dst))"

text \<open>
  The loop \<open>for i, r := range c.GetRoles()\<close>: \<open>rest\<close> is what remains of the copy made
  by \<open>GetRoles\<close>, \<open>i\<close> the index reached.
\<close>

fun RemoveRoleByAlias_loop :: "Role list \<Rightarrow> nat \<Rightarrow> Config \<Rightarrow> string \<Rightarrow> Config \<times> error option" where
  "RemoveRoleByAlias_loop [] i c alias = (c, Some (ErrRoleNotFound alias))"
| "RemoveRoleByAlias_loop (r # rest) i c alias =
     (if GetAlias r = alias then (c\<lparr>Roles := remove_at (Roles c) i\<rparr>, None)
      else RemoveRoleByAlias_loop rest (Suc i) c alias)"

definition RemoveRoleByAlias :: "Config \<Rightarrow> string \<Rightarrow> Config \<times> error option" where
  "RemoveRoleByAlias c alias = RemoveRoleByAlias_loop (GetRoles c) 0 c alias"

text \<open>
  \<open>sort.Slice(roles, less)\<close> sorts in place and is not stable: Go leaves the order of
  elements that compare equal open. The model is an insertion sort; the theorems below
  use only that the result is a permutation ordered by the comparison.
\<close>

fun sort_insert :: "('a \<Rightarrow> 'a \<Rightarrow> bool) \<Rightarrow> 'a \<Rightarrow> 'a list \<Rightarrow> 'a list" where
  "sort_insert lt x [] = [x]"
| "sort_insert lt x (y # ys) =
     (if lt x y then x # y # ys else y # sort_insert lt x ys)"

definition sort_Slice :: "'a list \<Rightarrow> ('a \<Rightarrow> 'a \<Rightarrow> bool) \<Rightarrow> 'a list" where
  "sort_Slice xs lt = fold (sort_insert lt) xs []"

definition AddRole :: "Config \<Rightarrow> Role \<Rightarrow> Config \<times> error option" where
  "AddRole c r =
     (let (existingRole, err) = GetRoleByAlias c (GetAlias r) in
      if err = None \<and> existingRole \<noteq> None then (c, Some (ErrRoleExists (GetAlias r)))
      else
        let roles = Roles c @ [r];
            roles = sort_Slice roles (\<lambda>ri rj. GetAlias ri > GetAlias rj)
        in (c\<lparr>Roles := roles\<rparr>, None))"

definition UpdateRoleByAlias :: "Config \<Rightarrow> string \<Rightarrow> Role \<Rightarrow> Config \<times> error option" where
  "UpdateRoleByAlias c alias r =
     (let (c, err) = RemoveRoleByAlias c alias in
      if err \<noteq> None then (c, err)
      else (c\<lparr>Roles := Roles c @ [r]\<rparr>, None))"

subsection \<open>The registry operations in the words of the specification\<close>

text \<open>
  \<open>removeByAlias\<close> removes the first match and preserves the relative order of the
  remaining elements; \<open>updateByAlias\<close> is remove-then-append, with no sort.
\<close>

fun remove_first_spec :: "string \<Rightarrow> Role list \<Rightarrow> Role list" where
  "remove_first_spec alias [] = []"
| "remove_first_spec alias (r # rs) =
     (if Alias r = alias then rs else r # remove_first_spec alias rs)"

definition updateByAlias_spec :: "string \<Rightarrow> Role \<Rightarrow> Role list \<Rightarrow> Role list" where
  "updateByAlias_spec alias newRole roles = remove_first_spec alias roles @ [newRole]"

text \<open>The colon-delimited segments of a string: all of them.\<close>

fun colon_segments :: "string \<Rightarrow> string list" where
  "colon_segments [] = [[]]"
| "colon_segments (x # xs) =
     (if x = CHR '':'' then [] # colon_segments xs
      else (case colon_segments xs of p # ps \<Rightarrow> (x # p) # ps | [] \<Rightarrow> [[x]]))"


section \<open>The filesystem\<close>

text \<open>
  \<open>afero.Fs\<close> is the interface through which the package reaches the filesystem. The
  model is a filesystem state: what is at each path (nothing, a file with its bytes, or an
  entry that cannot be inspected, for which \<open>Stat\<close> and \<open>Open\<close> fail with an error
  other than not-exist), and at which paths a file may be created, written or removed.
  Each operation returns the state after it.
\<close>

datatype node = File bytes | Blocked

record Fs =
  entries :: "string \<Rightarrow> node option"
  writable :: "string \<Rightarrow> bool"

definition os_IsNotExist :: "error \<Rightarrow> bool" where
  "os_IsNotExist err = (err = ErrNotExist)"

text \<open>A file is at the path; the path cannot be inspected.\<close>

definition file_exists :: "Fs \<Rightarrow> string \<Rightarrow> bool" where
  "file_exists fs p = (case entries fs p of Some (File b) \<Rightarrow> True | _ \<Rightarrow> False)"

definition probe_fails :: "Fs \<Rightarrow> string \<Rightarrow> bool" where
  "probe_fails fs p = (entries fs p = Some Blocked)"

definition afero_Exists :: "Fs \<Rightarrow> string \<Rightarrow> bool \<times> error option" where
  "afero_Exists fs p =
     (case entries fs p of
        Some (File b) \<Rightarrow> (True, None)
      | None \<Rightarrow> (False, None)
      | Some Blocked \<Rightarrow> (False, Some (LibError ''stat'')))"

definition afero_ReadFile :: "Fs \<Rightarrow> string \<Rightarrow> bytes \<times> error option" where
  "afero_ReadFile fs p =
     (case entries fs p of
        Some (File b) \<Rightarrow> (b, None)
      | None \<Rightarrow> ([], Some ErrNotExist)
      | Some Blocked \<Rightarrow> ([], Some (LibError ''open'')))"

definition Fs_Create :: "Fs \<Rightarrow> string \<Rightarrow> Fs \<times> error option" where
  "Fs_Create fs p =
     (if writable fs p \<and> entries fs p \<noteq> Some Blocked
      then (fs\<lparr>entries := (entries fs)(p \<mapsto> File [])\<rparr>, None)
      else (fs, Some (LibError ''create'')))"

definition afero_WriteFile :: "Fs \<Rightarrow> string \<Rightarrow> bytes \<Rightarrow> Fs \<times> error option" where
  "afero_WriteFile fs p data =
     (if writable fs p \<and> entries fs p \<noteq> Some Blocked
      then (fs\<lparr>entries := (entries fs)(p \<mapsto> File data)\<rparr>, None)
      else (fs, Some (LibError ''write'')))"

definition Fs_Remove :: "Fs \<Rightarrow> string \<Rightarrow> Fs \<times> error option" where
  "Fs_Remove fs p =
     (case entries fs p of
        None \<Rightarrow> (fs, Some ErrNotExist)
      | Some n \<Rightarrow>
          if writable fs p then (fs\<lparr>entries := (entries fs)(p := None)\<rparr>, None)
          else (fs, Some (LibError ''remove'')))"


section \<open>The serialization libraries\<close>

text \<open>
  \<open>Save\<close> and \<open>NewConfig\<close> hand the configuration to \<open>json.Marshal\<close>,
  \<open>toml.Marshal\<close>, \<open>yaml.Marshal\<close> and their \<open>Unmarshal\<close> counterparts. These six
  library functions are parameters of the model, collected in a record. Of a \<open>Config\<close>
  they see the roles only: \<open>Path\<close> and \<open>Format\<close> carry the tag \<open>"-"\<close> for all three
  formats and \<open>fs\<close> is not exported. So a marshal function takes the roles and returns
  bytes and an error; an unmarshal function takes the bytes and the roles of the target
  and returns the roles after decoding and an error.
\<close>

type_synonym marshalFn = "Role list \<Rightarrow> bytes \<times> error option"
type_synonym unmarshalFn = "bytes \<Rightarrow> Role list \<Rightarrow> Role list \<times> error option"

record codecs =
  json_Marshal :: marshalFn
  toml_Marshal :: marshalFn
  yaml_Marshal :: marshalFn
  json_Unmarshal :: unmarshalFn
  yaml_Unmarshal :: unmarshalFn
  toml_Unmarshal :: unmarshalFn

text \<open>
  An instance for the closed examples: no bytes are written and decoding leaves the
  target as it is. (This is what \<open>yaml.Unmarshal\<close> does with an empty file, the case
  the examples use it for; the theorems themselves hold for every instance.)
\<close>

definition null_codecs :: codecs where
  "null_codecs = \<lparr>json_Marshal = (\<lambda>v. ([], None)), toml_Marshal = (\<lambda>v. ([], None)),
     yaml_Marshal = (\<lambda>v. ([], None)), json_Unmarshal = (\<lambda>data target. (target, None)),
     yaml_Unmarshal = (\<lambda>data target. (target, None)),
     toml_Unmarshal = (\<lambda>data target. (target, None))\<rparr>"

subsection \<open>What \<open>encoding/json\<close> does with a \<open>Marshaler\<close>\<close>

text \<open>
  \<open>Role.ARN\<close> has type \<open>*ARN\<close>, which implements \<open>json.Marshaler\<close>. For such a field
  \<open>json.Marshal\<close> writes \<open>null\<close> when the pointer is nil; otherwise it calls
  \<open>MarshalJSON\<close> and copies the bytes returned into its output after checking that they
  are valid JSON. When the method fails or the bytes are not valid JSON, \<open>json.Marshal\<close>
  returns no bytes and a \<open>*json.MarshalerError\<close>.

  \<open>json_valid\<close> is the check: the JSON grammar (RFC 8259), which is what the scanner of
  \<open>encoding/json\<close> accepts. The scan functions return what follows the text they
  accept. \<open>fuel\<close> bounds the recursion through arrays and objects.
\<close>

definition is_ws :: "char \<Rightarrow> bool" where
  "is_ws c = (c = CHR '' '' \<or> c = CHR 0x09 \<or> c = CHR 0x0A \<or> c = CHR 0x0D)"

definition is_digit :: "char \<Rightarrow> bool" where
  "is_digit c = (c \<in> set ''0123456789'')"

definition is_hex :: "char \<Rightarrow> bool" where
  "is_hex c = (c \<in> set ''0123456789abcdefABCDEF'')"

definition skip_ws :: "string \<Rightarrow> string" where
  "skip_ws s = dropWhile is_ws s"

fun scan_string :: "string \<Rightarrow> string option" where
  "scan_string [] = None"
| "scan_string (c # cs) =
     (if c = CHR 0x22 then Some cs
      else if c = CHR 0x5C then
        (case cs of
           [] \<Rightarrow> None
         | e # es \<Rightarrow>
             if e \<in> set [CHR 0x22, CHR 0x5C, CHR ''/'', CHR ''b'', CHR ''f'', CHR ''n'',
                         CHR ''r'', CHR ''t'']
             then scan_string es
             else if e = CHR ''u'' then
               (case es of
                  h1 # h2 # h3 # h4 # rest \<Rightarrow>
                    if is_hex h1 \<and> is_hex h2 \<and> is_hex h3 \<and> is_hex h4
                    then scan_string rest else None
                | _ \<Rightarrow> None)
             else None)
      else if of_char c < (0x20 :: nat) then None
      else scan_string cs)"

definition scan_exponent :: "string \<Rightarrow> string option" where
  "scan_exponent s =
     (case s of
        [] \<Rightarrow> Some []
      | e # r \<Rightarrow>
          if e = CHR ''e'' \<or> e = CHR ''E'' then
            (let r = (case r of [] \<Rightarrow> [] | g # r' \<Rightarrow>
                        if g = CHR ''+'' \<or> g = CHR ''-'' then r' else r)
             in case r of
                  [] \<Rightarrow> None
                | d # r' \<Rightarrow> if is_digit d then Some (dropWhile is_digit r') else None)
          else Some s)"

definition scan_fraction :: "string \<Rightarrow> string option" where
  "scan_fraction s =
     (case s of
        [] \<Rightarrow> Some []
      | p # r \<Rightarrow>
          if p = CHR ''.'' then
            (case r of
               [] \<Rightarrow> None
             | d # r' \<Rightarrow> if is_digit d then scan_exponent (dropWhile is_digit r') else None)
          else scan_exponent s)"

definition scan_number :: "string \<Rightarrow> string option" where
  "scan_number s =
     (let s = (case s of [] \<Rightarrow> [] | m # r \<Rightarrow> if m = CHR ''-'' then r else s)
      in case s of
           [] \<Rightarrow> None
         | d # r \<Rightarrow>
             if d = CHR ''0'' then scan_fraction r
             else if is_digit d then scan_fraction (dropWhile is_digit r)
             else None)"

fun scan_value :: "nat \<Rightarrow> string \<Rightarrow> string option"
  and scan_elements :: "nat \<Rightarrow> string \<Rightarrow> string option"
  and scan_members :: "nat \<Rightarrow> string \<Rightarrow> string option" where
  "scan_value 0 s = None"
| "scan_value (Suc fuel) [] = None"
| "scan_value (Suc fuel) (c # cs) =
     (if c = CHR 0x7B then
        (case skip_ws cs of
           [] \<Rightarrow> None
         | d # r \<Rightarrow> if d = CHR 0x7D then Some r else scan_members fuel (d # r))
      else if c = CHR 0x5B then
        (case skip_ws cs of
           [] \<Rightarrow> None
         | d # r \<Rightarrow> if d = CHR 0x5D then Some r else scan_elements fuel (d # r))
      else if c = CHR 0x22 then scan_string cs
      else if c = CHR ''-'' \<or> is_digit c then scan_number (c # cs)
      else if strings_HasPrefix (c # cs) ''true'' then Some (drop 4 (c # cs))
      else if strings_HasPrefix (c # cs) ''false'' then Some (drop 5 (c # cs))
      else if strings_HasPrefix (c # cs) ''null'' then Some (drop 4 (c # cs))
      else None)"
| "scan_elements 0 s = None"
| "scan_elements (Suc fuel) s =
     (case scan_value fuel s of
        None \<Rightarrow> None
      | Some r \<Rightarrow>
          (case skip_ws r of
             [] \<Rightarrow> None
           | d # r' \<Rightarrow>
               if d = CHR '','' then scan_elements fuel (skip_ws r')
               else if d = CHR 0x5D then Some r'
               else None))"
| "scan_members 0 s = None"
| "scan_members (Suc fuel) [] = None"
| "scan_members (Suc fuel) (q # cs) =
     (if q \<noteq> CHR 0x22 then None
      else case scan_string cs of
        None \<Rightarrow> None
      | Some r \<Rightarrow>
          (case skip_ws r of
             [] \<Rightarrow> None
           | k # r' \<Rightarrow>
               if k \<noteq> CHR '':'' then None
               else case scan_value fuel (skip_ws r') of
                 None \<Rightarrow> None
               | Some r2 \<Rightarrow>
                   (case skip_ws r2 of
                      [] \<Rightarrow> None
                    | d # r3 \<Rightarrow>
                        if d = CHR '','' then scan_members fuel (skip_ws r3)
                        else if d = CHR 0x7D then Some r3
                        else None)))"

definition json_valid :: "bytes \<Rightarrow> bool" where
  "json_valid b =
     (case scan_value (2 * length b + 2) (skip_ws b) of
        None \<Rightarrow> False
      | Some r \<Rightarrow> skip_ws r = [])"

text \<open>
  The encoder applied to the \<open>arn\<close> field of one role: \<open>None\<close> when \<open>json.Marshal\<close>
  goes on, the error when it stops.
\<close>

definition marshalerEncoder :: "ARN option \<Rightarrow> error option" where
  "marshalerEncoder v =
     (case v of
        None \<Rightarrow> None
      | Some a \<Rightarrow>
          (let (b, err) = ARN_MarshalJSON a in
           if err = None \<and> json_valid b then None else Some MarshalerError))"

text \<open>
  \<open>json.Marshal\<close> on the roles of a configuration. The text written when every field can be encoded
  is the parameter \<open>render\<close>; the model fixes only when the call fails.
\<close>

definition encoding_json_Marshal :: "(Role list \<Rightarrow> bytes) \<Rightarrow> marshalFn" where
  "encoding_json_Marshal render roles =
     (case List.find (\<lambda>e. e \<noteq> None) (map (\<lambda>r. marshalerEncoder (ARN r)) roles) of
        Some err \<Rightarrow> ([], err)
      | None \<Rightarrow> (render roles, None))"

text \<open>
  \<open>ARN.UnmarshalJSON\<close> decodes its input into a structure with the one field \<open>arn\<close>,
  discards the error of that decoding, and parses the field. The decoding of the inner
  structure is the parameter \<open>unmarshal_intermediate\<close>: it returns the field read (empty
  when there is none) and the error.
\<close>

definition ARN_UnmarshalJSON ::
  "(bytes \<Rightarrow> string \<times> error option) \<Rightarrow> ARN \<Rightarrow> bytes \<Rightarrow> ARN \<times> error option" where
  "ARN_UnmarshalJSON unmarshal_intermediate a bs =
     (let (intermediate_Arn, err) = unmarshal_intermediate bs;
          (a, err) = ParseARN intermediate_Arn
      in (a, err))"


section \<open>Saving and loading the configuration\<close>

definition Save :: "codecs \<Rightarrow> Config \<Rightarrow> Fs \<Rightarrow> Fs \<times> error option" where
  "Save L c fs =
     (let marshalFn =
            (if GetFormat c = JSON then json_Marshal L
             else if GetFormat c = TOML then toml_Marshal L
             else if GetFormat c = YAML then yaml_Marshal L
             else (\<lambda>v. ([], None)));
          (bytes, err) = marshalFn (Roles c)
      in case err of
           Some e \<Rightarrow> (fs, Some (ErrMarshal e))
         | None \<Rightarrow>
             afero_WriteFile fs
               (strings_Join [GetPath c, ConfigFormat_String (GetFormat c)] ''.'') bytes)"

text \<open>
  \<open>NewConfig\<close> returns the filesystem after the call (it may have created the file),
  the configuration (\<open>None\<close> is the nil pointer) and the error. What the deferred
  \<open>f.Close()\<close> does when \<open>Create\<close> has failed depends on the file value the
  \<open>afero.Fs\<close> at hand returns with its error, and is not modelled: the model returns the
  wrapped error of the following check.
\<close>

definition NewConfig_decode ::
  "codecs \<Rightarrow> Fs \<Rightarrow> Config \<Rightarrow> bytes \<Rightarrow> Fs \<times> Config option \<times> error option" where
  "NewConfig_decode L fs cfg bytes =
     (let selected =
            (if GetFormat cfg = JSON then Inr (json_Unmarshal L)
             else if GetFormat cfg = YAML then Inr (yaml_Unmarshal L)
             else if GetFormat cfg = TOML then Inr (toml_Unmarshal L)
             else if GetFormat cfg = Unknown then Inl ErrUnsupportedConfigFormat
             else Inl ErrUnexpected)
      in case selected of
           Inl e \<Rightarrow> (fs, None, Some e)
         | Inr unmarshalFn \<Rightarrow>
             (let (roles, err) = unmarshalFn bytes (Roles cfg)
              in case err of
                   Some e \<Rightarrow> (fs, None, Some (ErrUnmarshal e))
                 | None \<Rightarrow> (fs, Some (cfg\<lparr>Roles := roles\<rparr>), None)))"

definition NewConfig_read ::
  "codecs \<Rightarrow> Fs \<Rightarrow> Config \<Rightarrow> Fs \<times> Config option \<times> error option" where
  "NewConfig_read L fs cfg =
     (let cfgPath = strings_Join [GetPath cfg, ConfigFormat_String (GetFormat cfg)] ''.'';
          (bytes, err) = afero_ReadFile fs cfgPath
      in case err of
           None \<Rightarrow> NewConfig_decode L fs cfg bytes
         | Some e \<Rightarrow>
             if os_IsNotExist e then
               (let (fs, err) = Fs_Create fs cfgPath
                in case err of
                     Some e \<Rightarrow> (fs, None, Some (ErrCreatingFile e))
                   | None \<Rightarrow> NewConfig_decode L fs cfg bytes)
             else (fs, None, Some (ErrReadingFile cfgPath e)))"

definition NewConfig :: "codecs \<Rightarrow> Fs \<Rightarrow> string \<Rightarrow> Fs \<times> Config option \<times> error option" where
  "NewConfig L fs opts_Path =
     (let cfg = \<lparr>Path = strings_TrimSuffix opts_Path (path_Ext opts_Path), Format = Unknown,
                 Roles = []\<rparr>;
          JSONFilePath = strings_Join [GetPath cfg, ConfigFormat_String JSON] ''.'';
          (JSONFileExists, JSONFileExistsErr) = afero_Exists fs JSONFilePath
      in case JSONFileExistsErr of
           Some e \<Rightarrow> (fs, None, Some (ErrCheckFileExists JSONFilePath e))
         | None \<Rightarrow>
      let YAMLFilePath = strings_Join [GetPath cfg, ConfigFormat_String YAML] ''.'';
          (YAMLFileExists, YAMLFileExistsErr) = afero_Exists fs YAMLFilePath
      in case YAMLFileExistsErr of
           Some e \<Rightarrow> (fs, None, Some (ErrCheckFileExists YAMLFilePath e))
         | None \<Rightarrow>
      let TOMLFilePath = strings_Join [GetPath cfg, ConfigFormat_String TOML] ''.'';
          (TOMLFileExists, TOMLFileExistsErr) = afero_Exists fs TOMLFilePath
      in case TOMLFileExistsErr of
           Some e \<Rightarrow> (fs, None, Some (ErrCheckFileExists TOMLFilePath e))
         | None \<Rightarrow>
      if JSONFileExists \<and> YAMLFileExists \<and> TOMLFileExists \<or>
         JSONFileExists \<and> YAMLFileExists \<or>
         JSONFileExists \<and> TOMLFileExists \<or>
         YAMLFileExists \<and> TOMLFileExists
      then (fs, None, Some ErrMultipleConfigs)
      else
        let cfg = (if JSONFileExists then SetFormat cfg JSON
                   else if YAMLFileExists then SetFormat cfg YAML
                   else if TOMLFileExists then SetFormat cfg TOML
                   else SetFormat cfg YAML)
        in NewConfig_read L fs cfg)"


section \<open>Executing a command under a role\<close>

text \<open>
  The external collaborators of \<open>ExecRole\<close>: the loader of the AWS configuration, the
  STS client, the environment of the process and the child process. \<open>cmd_Run\<close> is
  \<open>exec.Cmd.Run\<close> for a command, its arguments and its environment: \<open>None\<close> when the
  child ran and exited with status 0, \<open>ExitError\<close> with the status when it ran and exited
  with another status, any other error when it could not be started. The goroutine that
  forwards signals is not modelled.
\<close>

record Credentials =
  AccessKeyId :: string
  SecretAccessKey :: string
  SessionToken :: string

record collaborators =
  LoadDefaultAWSConfig :: "error option"
  AssumeRole :: "string \<Rightarrow> string \<Rightarrow> int \<Rightarrow> Credentials \<times> error option"
  os_Environ :: "string list"
  cmd_Run :: "string \<Rightarrow> string list \<Rightarrow> string list \<Rightarrow> error option"

text \<open>
  A call either returns, or ends the process with \<open>os.Exit\<close>, or panics.
\<close>

datatype 'a outcome = Returns 'a | os_Exit int | Panics

definition AWSAccessKeyIDEnvVar :: string where "AWSAccessKeyIDEnvVar = ''AWS_ACCESS_KEY_ID''"
definition AWSSecreteAccessKeyEnvVar :: string where
  "AWSSecreteAccessKeyEnvVar = ''AWS_SECRET_ACCESS_KEY''"
definition AWSSecurityTokenEnvVar :: string where "AWSSecurityTokenEnvVar = ''AWS_SECURITY_TOKEN''"
definition AWSSessionTokenEnvVar :: string where "AWSSessionTokenEnvVar = ''AWS_SESSION_TOKEN''"

text \<open>
  \<open>EnvMap.StringSlice\<close> ranges over a Go map, in an order Go leaves open; the model
  keeps the order in which the entries are given.
\<close>

definition StringSlice :: "(string \<times> string) list \<Rightarrow> string list" where
  "StringSlice m = map (\<lambda>(k, v). strings_Join [k, v] ''='') m"

definition ExecRole ::
  "collaborators \<Rightarrow> Config \<Rightarrow> string \<Rightarrow> int \<Rightarrow> string \<Rightarrow> string list \<Rightarrow> error option outcome" where
  "ExecRole W c alias sessionDuration command arguments =
     (case LoadDefaultAWSConfig W of
        Some e \<Rightarrow> Returns (Some (ErrLoadAWSConfig e))
      | None \<Rightarrow>
     (case GetRoleByAlias c alias of
        (_, Some e) \<Rightarrow> Returns (Some (ErrGetRoleByAlias alias e))
      | (None, None) \<Rightarrow> Panics
      | (Some resRole, None) \<Rightarrow>
     (case GetARN resRole of
        None \<Rightarrow> Panics
      | Some a \<Rightarrow>
     (case AssumeRole W (ARN_String a) (GetSessionName resRole) sessionDuration of
        (_, Some e) \<Rightarrow> Returns (Some (ErrSTSAssumeRole (ARN_String a) e))
      | (res, None) \<Rightarrow>
     (let cmdToRun_Env = os_Environ W @ StringSlice
            [(AWSAccessKeyIDEnvVar, AccessKeyId res),
             (AWSSecreteAccessKeyEnvVar, SecretAccessKey res),
             (AWSSecurityTokenEnvVar, SessionToken res),
             (AWSSessionTokenEnvVar, SessionToken res)];
          err = cmd_Run W command arguments cmdToRun_Env
      in if err \<noteq> None then
           (if err \<noteq> None then Returns err
            else case err of
                   Some (ExitError waitStatus) \<Rightarrow> os_Exit waitStatus
                 | _ \<Rightarrow> Returns None)
         else Returns None)))))"


section \<open>The commands\<close>

text \<open>
  \<open>path.Join\<close> of two elements: empty elements are ignored, the others are joined
  with a slash and the result is cleaned. \<open>path.Clean\<close> is computed on the
  slash-separated components: empty components and \<open>.\<close> are dropped, \<open>..\<close> removes
  the component before it (at the root it is dropped, at the start of a relative path it
  stays), and the empty result is \<open>.\<close>.
\<close>

fun path_components :: "string \<Rightarrow> string list" where
  "path_components [] = [[]]"
| "path_components (x # xs) =
     (if x = CHR ''/'' then [] # path_components xs
      else (case path_components xs of p # ps \<Rightarrow> (x # p) # ps | [] \<Rightarrow> [[x]]))"

fun clean_components :: "bool \<Rightarrow> string list \<Rightarrow> string list \<Rightarrow> string list" where
  "clean_components rooted [] out = rev out"
| "clean_components rooted (p # ps) out =
     (if p = [] \<or> p = ''.'' then clean_components rooted ps out
      else if p = ''..'' then
        (case out of
           [] \<Rightarrow> if rooted then clean_components rooted ps out
                 else clean_components rooted ps [p]
         | q # qs \<Rightarrow> if q = ''..'' then clean_components rooted ps (p # out)
                     else clean_components rooted ps qs)
      else clean_components rooted ps (p # out))"

definition path_Clean :: "string \<Rightarrow> string" where
  "path_Clean p =
     (if p = [] then ''.''
      else
        let rooted = (hd p = CHR ''/'');
            out = (if rooted then ''/'' else []) @
                  strings_Join (clean_components rooted (path_components p) []) ''/''
        in if out = [] then ''.'' else out)"

definition path_Join :: "string \<Rightarrow> string \<Rightarrow> string" where
  "path_Join a b =
     (if a = [] \<and> b = [] then []
      else if a = [] then path_Clean b
      else if b = [] then path_Clean a
      else path_Clean (a @ ''/'' @ b))"

definition DefaultConfigFilePath :: string where
  "DefaultConfigFilePath = ''.config/awssume''"

text \<open>
  \<open>convertCmd\<close>: \<open>user_Current\<close> is what \<open>user.Current()\<close> returns (the home directory
  and the error). \<open>afero.NewOsFs()\<close> is the filesystem of the process both times it is
  called. The command returns the filesystem it leaves and its error; a nil configuration
  returned without an error would be dereferenced.
\<close>

definition convertCmd ::
  "codecs \<Rightarrow> string \<times> error option \<Rightarrow> Fs \<Rightarrow> string list \<Rightarrow> (Fs \<times> error option) outcome" where
  "convertCmd L user_Current fs args =
     (if length args = 0 then Returns (fs, Some errTooFewArguments)
      else
        let fmtExt = args ! 0;
            (curUser_HomeDir, err) = user_Current
        in case err of
             Some e \<Rightarrow> Returns (fs, Some (errCurrentUser e))
           | None \<Rightarrow>
        (case NewConfig L fs (path_Join curUser_HomeDir DefaultConfigFilePath) of
           (fs, _, Some e) \<Rightarrow> Returns (fs, Some (ErrNewConfig e))
         | (fs, None, None) \<Rightarrow> Panics
         | (fs, Some cfg, None) \<Rightarrow>
        (let toRemove = strings_Join [GetPath cfg, ConfigFormat_String (GetFormat cfg)] ''.'';
             cfgFmt = FromExt 0 fmtExt;
             cfg = SetFormat cfg cfgFmt;
             (fs, err) = Save L cfg fs
         in case err of
              Some e \<Rightarrow>
                Returns (fs, Some (ErrWritingToFile
                   (strings_Join [GetPath cfg, ConfigFormat_String (GetFormat cfg)] ''.'') e))
            | None \<Rightarrow> Returns (Fs_Remove fs toRemove))))"

text \<open>
  \<open>execCmd\<close>: \<open>dashIdx\<close> is \<open>cmd.ArgsLenAtDash()\<close>. \<open>args[1]\<close> is read without a
  check of the length.
\<close>

definition execCmd ::
  "codecs \<Rightarrow> collaborators \<Rightarrow> string \<times> error option \<Rightarrow> Fs \<Rightarrow> int \<Rightarrow> string list \<Rightarrow> int
     \<Rightarrow> error option outcome" where
  "execCmd L W user_Current fs sessionDuration args dashIdx =
     (if length args = 0 then Returns (Some errTooFewArguments)
      else
        let alias = args ! 0 in
        if dashIdx = - 1 then Returns (Some ErrCommandMissing)
        else if length args < 2 then Panics
        else
          let command = args ! 1;
              arguments = (if length args > 1 then drop 2 args else []);
              (curUser_HomeDir, err) = user_Current
          in case err of
               Some e \<Rightarrow> Returns (Some (errCurrentUser e))
             | None \<Rightarrow>
          (case NewConfig L fs (path_Join curUser_HomeDir DefaultConfigFilePath) of
             (fs, _, Some e) \<Rightarrow> Returns (Some (ErrNewConfig e))
           | (fs, None, None) \<Rightarrow> Panics
           | (fs, Some cfg, None) \<Rightarrow> ExecRole W cfg alias sessionDuration command arguments))"

text \<open>
  The end of \<open>main\<close>: \<open>if err := rootCmd.Execute(); err != nil { fmt.Println(err);
  os.Exit(1) }\<close>. The exit status of the process, for the outcome of the command that ran;
  a Go program that panics exits with status 2.
\<close>

definition main_exit_status :: "error option outcome \<Rightarrow> int" where
  "main_exit_status out =
     (case out of
        Returns None \<Rightarrow> 0
      | Returns (Some err) \<Rightarrow> 1
      | os_Exit code \<Rightarrow> code
      | Panics \<Rightarrow> 2)"


section \<open>Theorems: configuration formats\<close>

lemmas format_defs = JSON_def TOML_def YAML_def Unknown_def

lemma TrimPrefix_dot_eq:
  "strings_TrimPrefix ext ''.'' = e \<Longrightarrow> e \<noteq> [] \<Longrightarrow> hd e \<noteq> CHR ''.'' \<Longrightarrow>
     ext = e \<or> ext = CHR ''.'' # e"
  by (cases ext) (auto simp: strings_TrimPrefix_def strings_HasPrefix_def split: if_splits)

text \<open>
  Claim C9. \<open>FromExt\<close> is a total function. For each of the extensions \<open>json\<close>,
  \<open>toml\<close>, \<open>yaml\<close>, \<open>yml\<close>, written with or without one leading dot, \<open>FromExt\<close>
  followed by \<open>String\<close> gives the stable extension (\<open>yml\<close> becomes \<open>yaml\<close>); every
  other input, the empty string included, gives \<open>Unknown\<close>, whose \<open>String\<close> is
  \<open>UNKNOWN\<close>.
\<close>

theorem FromExt_String_stable:
  "(\<forall>d \<in> {'''', ''.''}.
       ConfigFormat_String (FromExt cf (d @ ''json'')) = ''json''
     \<and> ConfigFormat_String (FromExt cf (d @ ''toml'')) = ''toml''
     \<and> ConfigFormat_String (FromExt cf (d @ ''yaml'')) = ''yaml''
     \<and> ConfigFormat_String (FromExt cf (d @ ''yml'')) = ''yaml'')
   \<and> (ext \<notin> {''json'', ''toml'', ''yaml'', ''yml'', ''.json'', ''.toml'', ''.yaml'', ''.yml''}
        \<longrightarrow> FromExt cf ext = Unknown \<and> ConfigFormat_String (FromExt cf ext) = ''UNKNOWN'')
   \<and> FromExt cf '''' = Unknown"
proof (intro conjI ballI impI)
  fix d :: string
  assume "d \<in> {'''', ''.''}"
  then have d: "d = '''' \<or> d = ''.''" by simp
  from d show "ConfigFormat_String (FromExt cf (d @ ''json'')) = ''json''"
    by (auto simp: FromExt_def ConfigFormat_String_def strings_TrimPrefix_def
        strings_HasPrefix_def format_defs)
  from d show "ConfigFormat_String (FromExt cf (d @ ''toml'')) = ''toml''"
    by (auto simp: FromExt_def ConfigFormat_String_def strings_TrimPrefix_def
        strings_HasPrefix_def format_defs)
  from d show "ConfigFormat_String (FromExt cf (d @ ''yaml'')) = ''yaml''"
    by (auto simp: FromExt_def ConfigFormat_String_def strings_TrimPrefix_def
        strings_HasPrefix_def format_defs)
  from d show "ConfigFormat_String (FromExt cf (d @ ''yml'')) = ''yaml''"
    by (auto simp: FromExt_def ConfigFormat_String_def strings_TrimPrefix_def
        strings_HasPrefix_def format_defs)
next
  assume other: "ext \<notin> {''json'', ''toml'', ''yaml'', ''yml'',
                         ''.json'', ''.toml'', ''.yaml'', ''.yml''}"
  have "strings_TrimPrefix ext ''.'' \<notin> {''json'', ''toml'', ''yaml'', ''yml''}"
  proof
    assume "strings_TrimPrefix ext ''.'' \<in> {''json'', ''toml'', ''yaml'', ''yml''}"
    then consider "strings_TrimPrefix ext ''.'' = ''json''"
      | "strings_TrimPrefix ext ''.'' = ''toml''"
      | "strings_TrimPrefix ext ''.'' = ''yaml''"
      | "strings_TrimPrefix ext ''.'' = ''yml''" by auto
    then show False
    proof cases
      case 1 from TrimPrefix_dot_eq [OF 1] other show False by simp
    next
      case 2 from TrimPrefix_dot_eq [OF 2] other show False by simp
    next
      case 3 from TrimPrefix_dot_eq [OF 3] other show False by simp
    next
      case 4 from TrimPrefix_dot_eq [OF 4] other show False by simp
    qed
  qed
  then have u: "FromExt cf ext = Unknown"
    by (simp add: FromExt_def Let_def)
  show "FromExt cf ext = Unknown" by (rule u)
  show "ConfigFormat_String (FromExt cf ext) = ''UNKNOWN''"
    by (simp add: u ConfigFormat_String_def format_defs)
next
  show "FromExt cf '''' = Unknown"
    by (simp add: FromExt_def strings_TrimPrefix_def strings_HasPrefix_def)
qed

theorem FromExt_String_stable_witness:
  "''.'' \<in> {'''', ''.''}
   \<and> ConfigFormat_String (FromExt JSON (''.'' @ ''yml'')) = ''yaml''
   \<and> ''jsonx'' \<notin> {''json'', ''toml'', ''yaml'', ''yml'', ''.json'', ''.toml'', ''.yaml'', ''.yml''}
   \<and> FromExt JSON ''jsonx'' = Unknown
   \<and> ConfigFormat_String (FromExt JSON ''jsonx'') = ''UNKNOWN''"
proof -
  note t = FromExt_String_stable [of JSON "''jsonx''"]
  have d: "''.'' \<in> {'''', ''.''}" by simp
  have o: "''jsonx'' \<notin> {''json'', ''toml'', ''yaml'', ''yml'',
                           ''.json'', ''.toml'', ''.yaml'', ''.yml''}" by simp
  from t d have y: "ConfigFormat_String (FromExt JSON (''.'' @ ''yml'')) = ''yaml''"
    by blast
  from t o have u: "FromExt JSON ''jsonx'' = Unknown
      \<and> ConfigFormat_String (FromExt JSON ''jsonx'') = ''UNKNOWN''"
    by blast
  from d y o u show ?thesis by blast
qed


section \<open>Theorems: the role registry\<close>

lemma remove_at_eq:
  "i < length roles \<Longrightarrow> remove_at roles i = take i roles @ drop (Suc i) roles"
  by (simp add: remove_at_def go_copy_def min_def)

lemma RemoveRoleByAlias_loop_eq:
  "drop i (Roles c) = rest \<Longrightarrow>
   RemoveRoleByAlias_loop rest i c alias =
     (if alias \<in> set (map Alias rest)
      then (c\<lparr>Roles := take i (Roles c) @ remove_first_spec alias rest\<rparr>, None)
      else (c, Some (ErrRoleNotFound alias)))"
proof (induction rest arbitrary: i)
  case Nil
  then show ?case by simp
next
  case (Cons r rest)
  from Cons.prems have d: "drop i (Roles c) = r # rest" by simp
  have i: "i < length (Roles c)"
  proof (rule ccontr)
    assume "\<not> i < length (Roles c)"
    then have "drop i (Roles c) = []" by simp
    with d show False by simp
  qed
  from d i have nth: "Roles c ! i = r"
    by (metis nth_via_drop)
  from d have rest: "drop (Suc i) (Roles c) = rest"
    by (metis drop_Suc tl_drop list.sel(3))
  show ?case
  proof (cases "Alias r = alias")
    case True
    then show ?thesis using i rest by (simp add: GetAlias_def remove_at_eq)
  next
    case False
    have "take (Suc i) (Roles c) = take i (Roles c) @ [r]"
      using i nth by (simp add: take_Suc_conv_app_nth)
    with False Cons.IH [OF rest] show ?thesis
      by (simp add: GetAlias_def)
  qed
qed

lemma RemoveRoleByAlias_eq:
  "RemoveRoleByAlias c alias =
     (if alias \<in> set (map Alias (Roles c))
      then (c\<lparr>Roles := remove_first_spec alias (Roles c)\<rparr>, None)
      else (c, Some (ErrRoleNotFound alias)))"
  using RemoveRoleByAlias_loop_eq [where i=0 and c=c and rest="Roles c"]
  by (simp add: RemoveRoleByAlias_def GetRoles_def)

lemma GetRoleByAlias_loop_found:
  "alias \<in> set (map Alias roles) \<Longrightarrow>
     snd (GetRoleByAlias_loop roles alias) = None \<and> fst (GetRoleByAlias_loop roles alias) \<noteq> None"
  by (induction roles) (auto simp: GetAlias_def)

lemma GetRoleByAlias_loop_missing:
  "alias \<notin> set (map Alias roles) \<Longrightarrow>
     GetRoleByAlias_loop roles alias = (None, Some (ErrRoleNotFound alias))"
  by (induction roles) (auto simp: GetAlias_def)

lemma mset_sort_insert: "mset (sort_insert lt x ys) = add_mset x (mset ys)"
  by (induction ys) auto

lemma mset_fold_sort_insert: "mset (fold (sort_insert lt) xs acc) = mset xs + mset acc"
  by (induction xs arbitrary: acc) (auto simp: mset_sort_insert)

lemma mset_sort_Slice: "mset (sort_Slice xs lt) = mset xs"
  by (simp add: sort_Slice_def mset_fold_sort_insert)

lemma set_sort_insert: "set (sort_insert lt x ys) = insert x (set ys)"
  by (induction ys) auto

lemma sorted_sort_insert:
  "sorted_wrt (\<lambda>a b. Alias a \<ge> Alias b) ys \<Longrightarrow>
   sorted_wrt (\<lambda>a b. Alias a \<ge> Alias b) (sort_insert (\<lambda>ri rj. GetAlias ri > GetAlias rj) x ys)"
  by (induction ys) (auto simp: set_sort_insert GetAlias_def)

lemma sorted_fold_sort_insert:
  "sorted_wrt (\<lambda>a b. Alias a \<ge> Alias b) acc \<Longrightarrow>
   sorted_wrt (\<lambda>a b. Alias a \<ge> Alias b)
     (fold (sort_insert (\<lambda>ri rj. GetAlias ri > GetAlias rj)) xs acc)"
  by (induction xs arbitrary: acc) (auto simp: sorted_sort_insert)

lemma sorted_sort_Slice:
  "sorted_wrt (\<lambda>a b. Alias a \<ge> Alias b) (sort_Slice xs (\<lambda>ri rj. GetAlias ri > GetAlias rj))"
  by (simp add: sort_Slice_def sorted_fold_sort_insert)


lemma GetRoleByAlias_found:
  "alias \<in> set (map Alias (Roles c)) \<Longrightarrow>
     snd (GetRoleByAlias c alias) = None \<and> fst (GetRoleByAlias c alias) \<noteq> None"
  unfolding GetRoleByAlias_def by (rule GetRoleByAlias_loop_found)

lemma GetRoleByAlias_missing:
  "alias \<notin> set (map Alias (Roles c)) \<Longrightarrow>
     GetRoleByAlias c alias = (None, Some (ErrRoleNotFound alias))"
  unfolding GetRoleByAlias_def by (rule GetRoleByAlias_loop_missing)

lemma AddRole_present:
  "Alias r \<in> set (map Alias (Roles c)) \<Longrightarrow> AddRole c r = (c, Some (ErrRoleExists (Alias r)))"
  using GetRoleByAlias_found [of "Alias r" c]
  by (cases "GetRoleByAlias c (Alias r)") (simp add: AddRole_def GetAlias_def)

lemma AddRole_absent:
  "Alias r \<notin> set (map Alias (Roles c)) \<Longrightarrow>
   AddRole c r =
     (c\<lparr>Roles := sort_Slice (Roles c @ [r]) (\<lambda>ri rj. GetAlias ri > GetAlias rj)\<rparr>, None)"
  using GetRoleByAlias_missing [of "Alias r" c]
  by (simp add: AddRole_def GetAlias_def)

text \<open>
  Claim C6. \<open>AddRole\<close> on a registry that already holds a role with the same alias
  fails with \<open>ErrRoleExists\<close> and returns the configuration unchanged; on a registry
  without that alias it succeeds, the new role sequence holds the old roles and the new
  one, and it is sorted descending by alias (Go's bytewise string order).
\<close>

theorem AddRole_exists_or_sorted:
  "(Alias r \<in> set (map Alias (Roles c)) \<longrightarrow>
      AddRole c r = (c, Some (ErrRoleExists (Alias r))))
   \<and> (Alias r \<notin> set (map Alias (Roles c)) \<longrightarrow>
        snd (AddRole c r) = None
      \<and> sorted_wrt (\<lambda>a b. Alias a \<ge> Alias b) (Roles (fst (AddRole c r)))
      \<and> mset (Roles (fst (AddRole c r))) = add_mset r (mset (Roles c))
      \<and> Path (fst (AddRole c r)) = Path c \<and> Format (fst (AddRole c r)) = Format c)"
proof (intro conjI impI)
  assume "Alias r \<in> set (map Alias (Roles c))"
  then show "AddRole c r = (c, Some (ErrRoleExists (Alias r)))"
    by (rule AddRole_present)
next
  assume "Alias r \<notin> set (map Alias (Roles c))"
  note a = AddRole_absent [OF this]
  show "snd (AddRole c r) = None" by (simp add: a)
  show "sorted_wrt (\<lambda>a b. Alias a \<ge> Alias b) (Roles (fst (AddRole c r)))"
    by (simp add: a sorted_sort_Slice)
  show "mset (Roles (fst (AddRole c r))) = add_mset r (mset (Roles c))"
    by (simp add: a mset_sort_Slice)
  show "Path (fst (AddRole c r)) = Path c" by (simp add: a)
  show "Format (fst (AddRole c r)) = Format c" by (simp add: a)
qed

text \<open>
  Claim C7. When a role with the alias exists, \<open>UpdateRoleByAlias\<close> is
  \<open>RemoveRoleByAlias\<close> (which removes the first match and keeps the order of the
  others) followed by appending the new role at the end, and nothing is sorted: the
  result is exactly \<open>updateByAlias_spec\<close>. When no role has the alias it fails with
  \<open>ErrRoleNotFound\<close> and the configuration is unchanged.
\<close>

theorem UpdateRoleByAlias_remove_then_append:
  "(alias \<in> set (map Alias (Roles c)) \<longrightarrow>
        RemoveRoleByAlias c alias = (c\<lparr>Roles := remove_first_spec alias (Roles c)\<rparr>, None)
      \<and> UpdateRoleByAlias c alias r =
          ((fst (RemoveRoleByAlias c alias))
             \<lparr>Roles := Roles (fst (RemoveRoleByAlias c alias)) @ [r]\<rparr>, None)
      \<and> UpdateRoleByAlias c alias r =
          (c\<lparr>Roles := updateByAlias_spec alias r (Roles c)\<rparr>, None))
   \<and> (alias \<notin> set (map Alias (Roles c)) \<longrightarrow>
        UpdateRoleByAlias c alias r = (c, Some (ErrRoleNotFound alias)))"
  by (simp add: UpdateRoleByAlias_def RemoveRoleByAlias_eq updateByAlias_spec_def)

theorem AddRole_exists_or_sorted_witness:
  "Alias \<lparr>Alias = ''skunk'', ARN = None, SessionName = ''s2''\<rparr>
     \<in> set (map Alias (Roles \<lparr>Path = ''cfg'', Format = YAML,
          Roles = [\<lparr>Alias = ''skunk'', ARN = None, SessionName = ''s1''\<rparr>]\<rparr>))
   \<and> AddRole \<lparr>Path = ''cfg'', Format = YAML,
          Roles = [\<lparr>Alias = ''skunk'', ARN = None, SessionName = ''s1''\<rparr>]\<rparr>
        \<lparr>Alias = ''skunk'', ARN = None, SessionName = ''s2''\<rparr>
      = (\<lparr>Path = ''cfg'', Format = YAML,
          Roles = [\<lparr>Alias = ''skunk'', ARN = None, SessionName = ''s1''\<rparr>]\<rparr>,
         Some (ErrRoleExists ''skunk''))
   \<and> Alias \<lparr>Alias = ''zebra'', ARN = None, SessionName = ''s2''\<rparr>
     \<notin> set (map Alias (Roles \<lparr>Path = ''cfg'', Format = YAML,
          Roles = [\<lparr>Alias = ''skunk'', ARN = None, SessionName = ''s1''\<rparr>]\<rparr>))
   \<and> snd (AddRole \<lparr>Path = ''cfg'', Format = YAML,
          Roles = [\<lparr>Alias = ''skunk'', ARN = None, SessionName = ''s1''\<rparr>]\<rparr>
        \<lparr>Alias = ''zebra'', ARN = None, SessionName = ''s2''\<rparr>) = None
   \<and> sorted_wrt (\<lambda>a b. Alias a \<ge> Alias b)
        (Roles (fst (AddRole \<lparr>Path = ''cfg'', Format = YAML,
          Roles = [\<lparr>Alias = ''skunk'', ARN = None, SessionName = ''s1''\<rparr>]\<rparr>
        \<lparr>Alias = ''zebra'', ARN = None, SessionName = ''s2''\<rparr>)))"
  using AddRole_exists_or_sorted [of "\<lparr>Alias = ''skunk'', ARN = None, SessionName = ''s2''\<rparr>"
      "\<lparr>Path = ''cfg'', Format = YAML,
        Roles = [\<lparr>Alias = ''skunk'', ARN = None, SessionName = ''s1''\<rparr>]\<rparr>"]
    AddRole_exists_or_sorted [of "\<lparr>Alias = ''zebra'', ARN = None, SessionName = ''s2''\<rparr>"
      "\<lparr>Path = ''cfg'', Format = YAML,
        Roles = [\<lparr>Alias = ''skunk'', ARN = None, SessionName = ''s1''\<rparr>]\<rparr>"]
  by simp

theorem UpdateRoleByAlias_remove_then_append_witness:
  "''b'' \<in> set (map Alias (Roles \<lparr>Path = ''cfg'', Format = YAML,
         Roles = [\<lparr>Alias = ''b'', ARN = None, SessionName = ''s1''\<rparr>,
                  \<lparr>Alias = ''a'', ARN = None, SessionName = ''s2''\<rparr>]\<rparr>))
   \<and> UpdateRoleByAlias \<lparr>Path = ''cfg'', Format = YAML,
         Roles = [\<lparr>Alias = ''b'', ARN = None, SessionName = ''s1''\<rparr>,
                  \<lparr>Alias = ''a'', ARN = None, SessionName = ''s2''\<rparr>]\<rparr> ''b''
        \<lparr>Alias = ''z'', ARN = None, SessionName = ''s3''\<rparr>
      = (\<lparr>Path = ''cfg'', Format = YAML,
         Roles = [\<lparr>Alias = ''a'', ARN = None, SessionName = ''s2''\<rparr>,
                  \<lparr>Alias = ''z'', ARN = None, SessionName = ''s3''\<rparr>]\<rparr>, None)
   \<and> ''q'' \<notin> set (map Alias (Roles \<lparr>Path = ''cfg'', Format = YAML,
         Roles = [\<lparr>Alias = ''b'', ARN = None, SessionName = ''s1''\<rparr>,
                  \<lparr>Alias = ''a'', ARN = None, SessionName = ''s2''\<rparr>]\<rparr>))
   \<and> UpdateRoleByAlias \<lparr>Path = ''cfg'', Format = YAML,
         Roles = [\<lparr>Alias = ''b'', ARN = None, SessionName = ''s1''\<rparr>,
                  \<lparr>Alias = ''a'', ARN = None, SessionName = ''s2''\<rparr>]\<rparr> ''q''
        \<lparr>Alias = ''z'', ARN = None, SessionName = ''s3''\<rparr>
      = (\<lparr>Path = ''cfg'', Format = YAML,
         Roles = [\<lparr>Alias = ''b'', ARN = None, SessionName = ''s1''\<rparr>,
                  \<lparr>Alias = ''a'', ARN = None, SessionName = ''s2''\<rparr>]\<rparr>,
         Some (ErrRoleNotFound ''q''))"
  using UpdateRoleByAlias_remove_then_append [of "''b''" "\<lparr>Path = ''cfg'', Format = YAML,
         Roles = [\<lparr>Alias = ''b'', ARN = None, SessionName = ''s1''\<rparr>,
                  \<lparr>Alias = ''a'', ARN = None, SessionName = ''s2''\<rparr>]\<rparr>"
        "\<lparr>Alias = ''z'', ARN = None, SessionName = ''s3''\<rparr>"]
    UpdateRoleByAlias_remove_then_append [of "''q''" "\<lparr>Path = ''cfg'', Format = YAML,
         Roles = [\<lparr>Alias = ''b'', ARN = None, SessionName = ''s1''\<rparr>,
                  \<lparr>Alias = ''a'', ARN = None, SessionName = ''s2''\<rparr>]\<rparr>"
        "\<lparr>Alias = ''z'', ARN = None, SessionName = ''s3''\<rparr>"]
  by (simp add: updateByAlias_spec_def)

text \<open>
  Claim C3. Alias uniqueness is not preserved by \<open>UpdateRoleByAlias\<close>: it appends the
  new role without the lookup \<open>AddRole\<close> makes. From the registry with aliases \<open>b\<close>,
  \<open>a\<close>, replacing \<open>a\<close> by a role whose alias is \<open>b\<close> succeeds and leaves two roles
  with alias \<open>b\<close>.
\<close>

theorem UpdateRoleByAlias_duplicate_alias:
  "distinct (map Alias (Roles \<lparr>Path = ''cfg'', Format = YAML,
         Roles = [\<lparr>Alias = ''b'', ARN = None, SessionName = ''s1''\<rparr>,
                  \<lparr>Alias = ''a'', ARN = None, SessionName = ''s2''\<rparr>]\<rparr>))
   \<and> UpdateRoleByAlias \<lparr>Path = ''cfg'', Format = YAML,
         Roles = [\<lparr>Alias = ''b'', ARN = None, SessionName = ''s1''\<rparr>,
                  \<lparr>Alias = ''a'', ARN = None, SessionName = ''s2''\<rparr>]\<rparr> ''a''
        \<lparr>Alias = ''b'', ARN = None, SessionName = ''s3''\<rparr>
      = (\<lparr>Path = ''cfg'', Format = YAML,
         Roles = [\<lparr>Alias = ''b'', ARN = None, SessionName = ''s1''\<rparr>,
                  \<lparr>Alias = ''b'', ARN = None, SessionName = ''s3''\<rparr>]\<rparr>, None)
   \<and> \<not> distinct (map Alias [\<lparr>Alias = ''b'', ARN = None, SessionName = ''s1''\<rparr>,
                  \<lparr>Alias = ''b'', ARN = None, SessionName = ''s3''\<rparr>])"
  by (simp add: UpdateRoleByAlias_def RemoveRoleByAlias_def GetRoles_def GetAlias_def
      remove_at_def go_copy_def)

text \<open>
  The other mutations do keep aliases unique, and so does \<open>UpdateRoleByAlias\<close> when the
  new alias is the replaced one or is not in the registry.
\<close>

lemma distinct_remove_first_spec:
  "distinct (map Alias roles) \<Longrightarrow> distinct (map Alias (remove_first_spec alias roles))"
proof (induction roles)
  case Nil
  show ?case by simp
next
  case (Cons r roles)
  have sub: "set (remove_first_spec alias roles) \<subseteq> set roles" for roles
    by (induction roles) auto
  from Cons sub [of roles] show ?case by auto
qed

lemma remove_first_spec_absent:
  "alias \<notin> set (map Alias roles) \<Longrightarrow> remove_first_spec alias roles = roles"
  by (induction roles) auto

lemma set_remove_first_spec:
  "distinct (map Alias roles) \<Longrightarrow>
   set (map Alias (remove_first_spec alias roles)) = set (map Alias roles) - {alias}"
proof (induction roles)
  case Nil
  show ?case by simp
next
  case (Cons r roles)
  show ?case
  proof (cases "Alias r = alias")
    case True
    with Cons.prems show ?thesis by auto
  next
    case False
    with Cons show ?thesis by auto
  qed
qed

lemma RemoveRoleByAlias_distinct:
  "distinct (map Alias (Roles c)) \<Longrightarrow> distinct (map Alias (Roles (fst (RemoveRoleByAlias c alias))))"
  by (simp add: RemoveRoleByAlias_eq distinct_remove_first_spec)

lemma AddRole_distinct:
  assumes "distinct (map Alias (Roles c))"
  shows "distinct (map Alias (Roles (fst (AddRole c r))))"
proof (cases "Alias r \<in> set (map Alias (Roles c))")
  case True
  with AddRole_present [of r c] assms show ?thesis by simp
next
  case False
  with AddRole_absent [of r c]
  have "mset (Roles (fst (AddRole c r))) = mset (Roles c @ [r])"
    by (simp add: mset_sort_Slice)
  then have "mset (map Alias (Roles (fst (AddRole c r)))) = mset (map Alias (Roles c @ [r]))"
    by (metis mset_map)
  moreover have "distinct (map Alias (Roles c @ [r]))" using assms False by auto
  ultimately show ?thesis by (metis mset_eq_imp_distinct_iff)
qed

lemma UpdateRoleByAlias_distinct:
  assumes "distinct (map Alias (Roles c))"
    and "Alias r = alias \<or> Alias r \<notin> set (map Alias (Roles c))"
  shows "distinct (map Alias (Roles (fst (UpdateRoleByAlias c alias r))))"
proof (cases "alias \<in> set (map Alias (Roles c))")
  case True
  from assms set_remove_first_spec [OF assms(1), of "alias"]
  have "Alias r \<notin> set (map Alias (remove_first_spec alias (Roles c)))"
    by auto
  with True assms(1) show ?thesis
    by (simp add: UpdateRoleByAlias_def RemoveRoleByAlias_eq distinct_remove_first_spec)
next
  case False
  with assms(1) show ?thesis
    by (simp add: UpdateRoleByAlias_def RemoveRoleByAlias_eq)
qed


section \<open>Theorems: resource identifiers\<close>

lemma count_list_after_sep:
  "c \<in> set s \<Longrightarrow> count_list s c = Suc (count_list (tl (dropWhile (\<lambda>x. x \<noteq> c) s)) c)"
  by (induction s) auto

lemma count_list_zero: "c \<notin> set s \<Longrightarrow> count_list s c = 0"
  by (induction s) auto

lemma SplitN_length:
  "0 < n \<Longrightarrow> length (strings_SplitN s c n) = min n (Suc (count_list s c))"
proof (induction s c n rule: strings_SplitN.induct)
  case (1 s c)
  then show ?case by simp
next
  case (2 s c)
  then show ?case by simp
next
  case (3 s c n)
  show ?case
  proof (cases "c \<in> set s")
    case True
    with 3 count_list_after_sep [OF True] show ?thesis by simp
  next
    case False
    then show ?thesis by (simp add: count_list_zero)
  qed
qed

lemma colon_segments_nonempty: "colon_segments s \<noteq> []"
  by (induction s) (auto split: list.splits)

lemma colon_segments_length: "length (colon_segments s) = Suc (count_list s (CHR '':''))"
  using colon_segments_nonempty
  by (induction s) (auto split: list.splits)

lemma split_at_sep:
  "c \<in> set s \<Longrightarrow> takeWhile (\<lambda>x. x \<noteq> c) s @ c # tl (dropWhile (\<lambda>x. x \<noteq> c) s) = s"
  by (induction s) auto

lemma SplitN_nonempty: "0 < n \<Longrightarrow> strings_SplitN s c n \<noteq> []"
  by (induction s c n rule: strings_SplitN.induct) auto

lemma Join_Cons: "ys \<noteq> [] \<Longrightarrow> strings_Join (x # ys) sep = x @ sep @ strings_Join ys sep"
  by (cases ys) auto

lemma SplitN_Join: "0 < n \<Longrightarrow> strings_Join (strings_SplitN s c n) [c] = s"
proof (induction s c n rule: strings_SplitN.induct)
  case (1 s c)
  then show ?case by simp
next
  case (2 s c)
  then show ?case by simp
next
  case (3 s c n)
  show ?case
  proof (cases "c \<in> set s")
    case True
    with 3 have ih: "strings_Join (strings_SplitN (tl (dropWhile (\<lambda>x. x \<noteq> c) s)) c (Suc n)) [c]
        = tl (dropWhile (\<lambda>x. x \<noteq> c) s)" by simp
    have ne: "strings_SplitN (tl (dropWhile (\<lambda>x. x \<noteq> c) s)) c (Suc n) \<noteq> []"
      by (rule SplitN_nonempty) simp
    from True show ?thesis
      by (simp add: Join_Cons [OF ne] ih split_at_sep)
  next
    case False
    then show ?thesis by simp
  qed
qed

lemma SplitN_head:
  "strings_SplitN s c (Suc (Suc n)) ! 0 = takeWhile (\<lambda>x. x \<noteq> c) s"
  by (induction s) auto

lemma takeWhile_sep: "c \<notin> set p \<Longrightarrow> takeWhile (\<lambda>x. x \<noteq> c) (p @ c # rest) = p"
  by (induction p) auto

lemma dropWhile_sep: "c \<notin> set p \<Longrightarrow> dropWhile (\<lambda>x. x \<noteq> c) (p @ c # rest) = c # rest"
  by (induction p) auto

lemma SplitN_step:
  "c \<notin> set p \<Longrightarrow>
   strings_SplitN (p @ c # rest) c (Suc (Suc n)) = p # strings_SplitN rest c (Suc n)"
  by (simp add: takeWhile_sep dropWhile_sep)

lemma length6:
  "length xs = 6 \<Longrightarrow> \<exists>a b c d e f. xs = [a, b, c, d, e, f]"
  by (auto simp: eval_nat_numeral length_Suc_conv)

lemma arn_Parse_fails_iff:
  "snd (arn_Parse s) \<noteq> None \<longleftrightarrow>
     \<not> strings_HasPrefix s ''arn:'' \<or> length (colon_segments s) < 6"
  by (auto simp: arn_Parse_def Let_def SplitN_length colon_segments_length min_def)

lemma arn_String_Parse:
  assumes p: "strings_HasPrefix s ''arn:''" and n: "6 \<le> length (colon_segments s)"
  shows "arn_Parse s = (fst (arn_Parse s), None) \<and> arn_String (fst (arn_Parse s)) = s"
proof -
  from n have len: "length (strings_SplitN s (CHR '':'') 6) = 6"
    by (simp add: SplitN_length colon_segments_length min_def)
  then obtain a b c d e f where xs: "strings_SplitN s (CHR '':'') 6 = [a, b, c, d, e, f]"
    using length6 by blast
  from p have "take 4 s = ''arn:''" by (simp add: strings_HasPrefix_def eval_nat_numeral)
  then have s: "s = ''arn:'' @ drop 4 s" by (metis append_take_drop_id)
  have "strings_SplitN s (CHR '':'') 6 ! 0 = takeWhile (\<lambda>x. x \<noteq> CHR '':'') s"
    using SplitN_head [of s "CHR '':''" 4] by (simp add: eval_nat_numeral)
  also have "\<dots> = ''arn''" by (subst s) simp
  finally have a: "a = ''arn''" by (simp add: xs)
  have "strings_Join (strings_SplitN s (CHR '':'') 6) '':'' = s"
    by (rule SplitN_Join) simp
  then have j: "a @ '':'' @ b @ '':'' @ c @ '':'' @ d @ '':'' @ e @ '':'' @ f = s"
    by (simp add: xs)
  from p len show ?thesis
    using j by (simp add: arn_Parse_def Let_def xs arn_String_def a)
qed

lemma arn_Parse_String:
  assumes "CHR '':'' \<notin> set (Partition a)" "CHR '':'' \<notin> set (Service a)"
    "CHR '':'' \<notin> set (Region a)" "CHR '':'' \<notin> set (AccountID a)"
  shows "arn_Parse (arn_String a) = (a, None)"
proof -
  let ?c = "CHR '':''"
  let ?r4 = "Resource a"
  let ?r3 = "AccountID a @ ?c # ?r4"
  let ?r2 = "Region a @ ?c # ?r3"
  let ?r1 = "Service a @ ?c # ?r2"
  let ?r0 = "Partition a @ ?c # ?r1"
  have a0: "?c \<notin> set ''arn''" by simp
  have "strings_SplitN (''arn'' @ ?c # ?r0) ?c (Suc (Suc (Suc (Suc (Suc (Suc 0))))))
      = ''arn'' # strings_SplitN ?r0 ?c (Suc (Suc (Suc (Suc (Suc 0)))))"
    by (rule SplitN_step [OF a0])
  also have "strings_SplitN ?r0 ?c (Suc (Suc (Suc (Suc (Suc 0)))))
      = Partition a # strings_SplitN ?r1 ?c (Suc (Suc (Suc (Suc 0))))"
    by (rule SplitN_step [OF assms(1)])
  also have "strings_SplitN ?r1 ?c (Suc (Suc (Suc (Suc 0))))
      = Service a # strings_SplitN ?r2 ?c (Suc (Suc (Suc 0)))"
    by (rule SplitN_step [OF assms(2)])
  also have "strings_SplitN ?r2 ?c (Suc (Suc (Suc 0)))
      = Region a # strings_SplitN ?r3 ?c (Suc (Suc 0))"
    by (rule SplitN_step [OF assms(3)])
  also have "strings_SplitN ?r3 ?c (Suc (Suc 0))
      = AccountID a # strings_SplitN ?r4 ?c (Suc 0)"
    by (rule SplitN_step [OF assms(4)])
  also have "strings_SplitN ?r4 ?c (Suc 0) = [Resource a]" by simp
  finally have "strings_SplitN (''arn'' @ ?c # ?r0) ?c (Suc (Suc (Suc (Suc (Suc (Suc 0))))))
      = [''arn'', Partition a, Service a, Region a, AccountID a, Resource a]" .
  moreover have "(6::nat) = Suc (Suc (Suc (Suc (Suc (Suc 0)))))" by simp
  moreover have "arn_String a = ''arn'' @ ?c # ?r0" by (simp add: arn_String_def)
  ultimately have "strings_SplitN (arn_String a) ?c 6
      = [''arn'', Partition a, Service a, Region a, AccountID a, Resource a]"
    by (simp only:)
  moreover have "strings_HasPrefix (arn_String a) ''arn:''"
    by (simp add: strings_HasPrefix_def arn_String_def)
  ultimately show ?thesis
    by (simp add: arn_Parse_def Let_def)
qed


lemma ParseARN_eq: "ParseARN s = arn_Parse s"
  by (simp add: ParseARN_def split: prod.split)

text \<open>
  Claim C5. \<open>ParseARN\<close> fails exactly when the input lacks the \<open>arn:\<close> prefix or has
  fewer than 6 colon-delimited segments, and then returns the zero structure with one of
  the two errors of the \<open>arn\<close> package; \<open>arn:::::\<close> is accepted (all fields empty) and
  \<open>iNv@LiD\<close> is rejected.
\<close>

theorem ParseARN_fails_iff:
  "(snd (ParseARN s) \<noteq> None \<longleftrightarrow>
      \<not> strings_HasPrefix s ''arn:'' \<or> length (colon_segments s) < 6)
   \<and> (snd (ParseARN s) \<noteq> None \<longrightarrow>
        fst (ParseARN s) = arn_zero
      \<and> (snd (ParseARN s) = Some arn_invalidPrefix \<or> snd (ParseARN s) = Some arn_invalidSections))
   \<and> ParseARN ''arn:::::'' = (arn_zero, None)
   \<and> ParseARN ''iNv@LiD'' = (arn_zero, Some arn_invalidPrefix)"
proof (intro conjI)
  show "snd (ParseARN s) \<noteq> None \<longleftrightarrow>
      \<not> strings_HasPrefix s ''arn:'' \<or> length (colon_segments s) < 6"
    by (simp only: ParseARN_eq arn_Parse_fails_iff)
  show "snd (ParseARN s) \<noteq> None \<longrightarrow>
        fst (ParseARN s) = arn_zero
      \<and> (snd (ParseARN s) = Some arn_invalidPrefix \<or> snd (ParseARN s) = Some arn_invalidSections)"
    by (simp add: ParseARN_eq arn_Parse_def Let_def)
  show "ParseARN ''arn:::::'' = (arn_zero, None)"
    by (simp add: ParseARN_eq arn_Parse_def Let_def strings_HasPrefix_def eval_nat_numeral
        arn_zero_def)
  show "ParseARN ''iNv@LiD'' = (arn_zero, Some arn_invalidPrefix)"
    by (simp add: ParseARN_eq arn_Parse_def strings_HasPrefix_def)
qed

theorem ParseARN_fails_iff_witness:
  "strings_HasPrefix ''arn:aws:iam'' ''arn:''
   \<and> length (colon_segments ''arn:aws:iam'') < 6
   \<and> snd (ParseARN ''arn:aws:iam'') = Some arn_invalidSections
   \<and> fst (ParseARN ''arn:aws:iam'') = arn_zero"
proof -
  have p: "strings_HasPrefix ''arn:aws:iam'' ''arn:''"
    by (simp add: strings_HasPrefix_def)
  have n: "length (colon_segments ''arn:aws:iam'') < 6" by simp
  from ParseARN_fails_iff [of "''arn:aws:iam''"] n
  have f: "snd (ParseARN ''arn:aws:iam'') \<noteq> None" by blast
  with ParseARN_fails_iff [of "''arn:aws:iam''"]
  have z: "fst (ParseARN ''arn:aws:iam'') = arn_zero"
    and e: "snd (ParseARN ''arn:aws:iam'') = Some arn_invalidPrefix
          \<or> snd (ParseARN ''arn:aws:iam'') = Some arn_invalidSections"
    by blast+
  have "snd (ParseARN ''arn:aws:iam'') \<noteq> Some arn_invalidPrefix"
    by (simp add: ParseARN_eq arn_Parse_def Let_def strings_HasPrefix_def)
  with e have "snd (ParseARN ''arn:aws:iam'') = Some arn_invalidSections" by blast
  with p n z show ?thesis by blast
qed

text \<open>
  Claim C4, first the point where it fails. A structure whose partition holds a colon
  is not reproduced: \<open>String\<close> writes the same text for it as for the structure with
  the partition cut at the colon, and \<open>ParseARN\<close> returns the latter.
\<close>

theorem ParseARN_String_counterexample:
  "ParseARN (ARN_String \<lparr>Partition = ''a:b'', Service = [], Region = [],
        AccountID = [], Resource = []\<rparr>)
     = (\<lparr>Partition = ''a'', Service = ''b'', Region = [],
        AccountID = [], Resource = '':''\<rparr>, None)
   \<and> fst (ParseARN (ARN_String \<lparr>Partition = ''a:b'', Service = [], Region = [],
        AccountID = [], Resource = []\<rparr>))
     \<noteq> \<lparr>Partition = ''a:b'', Service = [], Region = [], AccountID = [], Resource = []\<rparr>"
  by (simp add: ParseARN_eq ARN_String_def arn_String_def arn_Parse_def Let_def
      strings_HasPrefix_def eval_nat_numeral)

text \<open>
  Claim C4, amended. For every string with the \<open>arn:\<close> prefix and at least six
  colon-delimited segments, \<open>ParseARN\<close> succeeds and \<open>String\<close> of the result is the
  string. For every structure whose partition, service, region and account id hold no
  colon (the resource may), \<open>ParseARN\<close> of its \<open>String\<close> succeeds and returns the
  structure.
\<close>

theorem ARN_round_trip:
  "(strings_HasPrefix s ''arn:'' \<and> 6 \<le> length (colon_segments s) \<longrightarrow>
      snd (ParseARN s) = None \<and> ARN_String (fst (ParseARN s)) = s)
   \<and> (CHR '':'' \<notin> set (Partition a) \<and> CHR '':'' \<notin> set (Service a)
      \<and> CHR '':'' \<notin> set (Region a) \<and> CHR '':'' \<notin> set (AccountID a) \<longrightarrow>
      ParseARN (ARN_String a) = (a, None))"
proof (intro conjI impI)
  assume h: "strings_HasPrefix s ''arn:'' \<and> 6 \<le> length (colon_segments s)"
  then have r: "arn_Parse s = (fst (arn_Parse s), None) \<and> arn_String (fst (arn_Parse s)) = s"
    using arn_String_Parse by blast
  from r show "snd (ParseARN s) = None"
    by (metis ParseARN_eq snd_conv)
  from r show "ARN_String (fst (ParseARN s)) = s"
    by (simp add: ParseARN_eq ARN_String_def)
next
  assume "CHR '':'' \<notin> set (Partition a) \<and> CHR '':'' \<notin> set (Service a)
      \<and> CHR '':'' \<notin> set (Region a) \<and> CHR '':'' \<notin> set (AccountID a)"
  then show "ParseARN (ARN_String a) = (a, None)"
    by (simp add: ParseARN_eq ARN_String_def arn_Parse_String)
qed

theorem ARN_round_trip_witness:
  "strings_HasPrefix ''arn:aws:iam::000000000000:role/skunk'' ''arn:''
   \<and> 6 \<le> length (colon_segments ''arn:aws:iam::000000000000:role/skunk'')
   \<and> snd (ParseARN ''arn:aws:iam::000000000000:role/skunk'') = None
   \<and> ARN_String (fst (ParseARN ''arn:aws:iam::000000000000:role/skunk''))
       = ''arn:aws:iam::000000000000:role/skunk''
   \<and> CHR '':'' \<notin> set ''aws'' \<and> CHR '':'' \<notin> set ''iam'' \<and> CHR '':'' \<notin> set []
   \<and> CHR '':'' \<notin> set ''000000000000''
   \<and> ParseARN (ARN_String \<lparr>Partition = ''aws'', Service = ''iam'', Region = [],
        AccountID = ''000000000000'', Resource = ''role/skunk''\<rparr>)
       = (\<lparr>Partition = ''aws'', Service = ''iam'', Region = [],
        AccountID = ''000000000000'', Resource = ''role/skunk''\<rparr>, None)"
proof -
  have p: "strings_HasPrefix ''arn:aws:iam::000000000000:role/skunk'' ''arn:''"
    by (simp add: strings_HasPrefix_def)
  have n: "6 \<le> length (colon_segments ''arn:aws:iam::000000000000:role/skunk'')" by simp
  have c: "CHR '':'' \<notin> set ''aws''" "CHR '':'' \<notin> set ''iam''" "CHR '':'' \<notin> set []"
    "CHR '':'' \<notin> set ''000000000000''" by simp_all
  note t = ARN_round_trip [of "''arn:aws:iam::000000000000:role/skunk''"
      "\<lparr>Partition = ''aws'', Service = ''iam'', Region = [],
        AccountID = ''000000000000'', Resource = ''role/skunk''\<rparr>"]
  from t p n have 1: "snd (ParseARN ''arn:aws:iam::000000000000:role/skunk'') = None
     \<and> ARN_String (fst (ParseARN ''arn:aws:iam::000000000000:role/skunk''))
       = ''arn:aws:iam::000000000000:role/skunk''" by blast
  from t c have 2: "ParseARN (ARN_String \<lparr>Partition = ''aws'', Service = ''iam'', Region = [],
        AccountID = ''000000000000'', Resource = ''role/skunk''\<rparr>)
       = (\<lparr>Partition = ''aws'', Service = ''iam'', Region = [],
        AccountID = ''000000000000'', Resource = ''role/skunk''\<rparr>, None)" by simp
  from p n c 1 2 show ?thesis by blast
qed


section \<open>Theorems: executing a command under a role\<close>

lemma ExecRole_no_os_Exit:
  "ExecRole W c alias sessionDuration command arguments \<noteq> os_Exit code"
  by (auto simp: ExecRole_def Let_def split: option.splits prod.splits)

lemma ExecRole_Run_error:
  assumes "LoadDefaultAWSConfig W = None"
    and "GetRoleByAlias c alias = (Some resRole, None)"
    and "GetARN resRole = Some a"
    and "snd (AssumeRole W (ARN_String a) (GetSessionName resRole) sessionDuration) = None"
    and "\<And>env. cmd_Run W command arguments env = Some (ExitError status)"
  shows "ExecRole W c alias sessionDuration command arguments = Returns (Some (ExitError status))"
  using assms
  by (cases "AssumeRole W (ARN_String a) (GetSessionName resRole) sessionDuration")
    (simp add: ExecRole_def Let_def)

text \<open>
  Claim C2. The exit status of the child is not propagated. When the child ran and
  exited with status 3, \<open>Run\<close> returns an \<open>*exec.ExitError\<close>; \<open>ExecRole\<close> returns that
  error at the first check \<open>err != nil\<close>, so that the branch that would call
  \<open>os.Exit\<close> with the child's status is never reached, and \<open>main\<close> ends the process
  with status 1.
\<close>

theorem ExecRole_child_exit_status_lost:
  "ExecRole
     \<lparr>LoadDefaultAWSConfig = None,
      AssumeRole = (\<lambda>roleArn roleSessionName durationSeconds.
         (\<lparr>AccessKeyId = ''AKIA'', SecretAccessKey = ''secret'', SessionToken = ''token''\<rparr>, None)),
      os_Environ = [],
      cmd_Run = (\<lambda>command arguments env. Some (ExitError 3))\<rparr>
     \<lparr>Path = ''cfg'', Format = YAML,
      Roles = [\<lparr>Alias = ''skunk'',
                ARN = Some \<lparr>Partition = ''aws'', Service = ''iam'', Region = [],
                            AccountID = ''000000000000'', Resource = ''role/skunk''\<rparr>,
                SessionName = ''sess''\<rparr>]\<rparr>
     ''skunk'' 3600 ''sh'' [''-c'', ''exit 3'']
   = Returns (Some (ExitError 3))
   \<and> main_exit_status (ExecRole
     \<lparr>LoadDefaultAWSConfig = None,
      AssumeRole = (\<lambda>roleArn roleSessionName durationSeconds.
         (\<lparr>AccessKeyId = ''AKIA'', SecretAccessKey = ''secret'', SessionToken = ''token''\<rparr>, None)),
      os_Environ = [],
      cmd_Run = (\<lambda>command arguments env. Some (ExitError 3))\<rparr>
     \<lparr>Path = ''cfg'', Format = YAML,
      Roles = [\<lparr>Alias = ''skunk'',
                ARN = Some \<lparr>Partition = ''aws'', Service = ''iam'', Region = [],
                            AccountID = ''000000000000'', Resource = ''role/skunk''\<rparr>,
                SessionName = ''sess''\<rparr>]\<rparr>
     ''skunk'' 3600 ''sh'' [''-c'', ''exit 3'']) = 1"
  by (simp add: ExecRole_def GetRoleByAlias_def GetAlias_def GetARN_def Let_def
      main_exit_status_def)


section \<open>Theorems: saving and loading the configuration\<close>

lemma Join2: "strings_Join [a, b] sep = a @ sep @ b"
  by simp

lemma afero_Exists_eq:
  "afero_Exists fs p = (file_exists fs p, if probe_fails fs p then Some (LibError ''stat'') else None)"
  by (simp add: afero_Exists_def file_exists_def probe_fails_def split: option.splits node.splits)

lemma NewConfig_multiple:
  assumes p: "p = strings_TrimSuffix opts_Path (path_Ext opts_Path)"
    and nb: "\<not> probe_fails fs (p @ ''.json'')" "\<not> probe_fails fs (p @ ''.yaml'')"
      "\<not> probe_fails fs (p @ ''.toml'')"
    and two: "file_exists fs (p @ ''.json'') \<and> file_exists fs (p @ ''.yaml'')
      \<or> file_exists fs (p @ ''.json'') \<and> file_exists fs (p @ ''.toml'')
      \<or> file_exists fs (p @ ''.yaml'') \<and> file_exists fs (p @ ''.toml'')"
  shows "NewConfig L fs opts_Path = (fs, None, Some ErrMultipleConfigs)"
proof -
  have j: "afero_Exists fs (p @ ''.json'') = (file_exists fs (p @ ''.json''), None)"
    and y: "afero_Exists fs (p @ ''.yaml'') = (file_exists fs (p @ ''.yaml''), None)"
    and t: "afero_Exists fs (p @ ''.toml'') = (file_exists fs (p @ ''.toml''), None)"
    using nb by (simp_all add: afero_Exists_eq)
  have s: "ConfigFormat_String JSON = ''json''" "ConfigFormat_String YAML = ''yaml''"
    "ConfigFormat_String TOML = ''toml''"
    by (simp_all add: ConfigFormat_String_def format_defs)
  from two show ?thesis
    unfolding NewConfig_def Let_def GetPath_def Join2 s
    by (auto simp: p [symmetric] j y t)
qed


text \<open>
  Claim C8, first the point where it fails. With \<open>cfg.json\<close> and \<open>cfg.yaml\<close>
  present and \<open>cfg.toml\<close> an entry whose existence probe fails, \<open>NewConfig\<close> returns
  the wrapped probe error, not \<open>ErrMultipleConfigs\<close>: the three probes and their error
  checks come before the test for several files.
\<close>

theorem NewConfig_probe_error_counterexample:
  "file_exists \<lparr>entries = (\<lambda>p. if p = ''cfg.json'' \<or> p = ''cfg.yaml'' then Some (File [])
                                 else if p = ''cfg.toml'' then Some Blocked else None),
                 writable = (\<lambda>p. True)\<rparr> ''cfg.json''
   \<and> file_exists \<lparr>entries = (\<lambda>p. if p = ''cfg.json'' \<or> p = ''cfg.yaml'' then Some (File [])
                                 else if p = ''cfg.toml'' then Some Blocked else None),
                 writable = (\<lambda>p. True)\<rparr> ''cfg.yaml''
   \<and> snd (NewConfig null_codecs
        \<lparr>entries = (\<lambda>p. if p = ''cfg.json'' \<or> p = ''cfg.yaml'' then Some (File [])
                         else if p = ''cfg.toml'' then Some Blocked else None),
         writable = (\<lambda>p. True)\<rparr> ''cfg'')
     = (None, Some (ErrCheckFileExists ''cfg.toml'' (LibError ''stat'')))"
  by (simp add: file_exists_def NewConfig_def afero_Exists_def Let_def GetPath_def
      ConfigFormat_String_def format_defs path_Ext_def strings_TrimSuffix_def
      strings_HasSuffix_def)

lemma NewConfig_probe_error:
  assumes p: "p = strings_TrimSuffix opts_Path (path_Ext opts_Path)"
  shows "snd (afero_Exists fs (p @ ''.json'')) = Some e \<Longrightarrow>
      NewConfig L fs opts_Path = (fs, None, Some (ErrCheckFileExists (p @ ''.json'') e))"
    and "\<not> probe_fails fs (p @ ''.json'') \<Longrightarrow> snd (afero_Exists fs (p @ ''.yaml'')) = Some e \<Longrightarrow>
      NewConfig L fs opts_Path = (fs, None, Some (ErrCheckFileExists (p @ ''.yaml'') e))"
    and "\<not> probe_fails fs (p @ ''.json'') \<Longrightarrow> \<not> probe_fails fs (p @ ''.yaml'') \<Longrightarrow>
      snd (afero_Exists fs (p @ ''.toml'')) = Some e \<Longrightarrow>
      NewConfig L fs opts_Path = (fs, None, Some (ErrCheckFileExists (p @ ''.toml'') e))"
proof -
  have s: "ConfigFormat_String JSON = ''json''" "ConfigFormat_String YAML = ''yaml''"
    "ConfigFormat_String TOML = ''toml''"
    by (simp_all add: ConfigFormat_String_def format_defs)
  show "snd (afero_Exists fs (p @ ''.json'')) = Some e \<Longrightarrow>
      NewConfig L fs opts_Path = (fs, None, Some (ErrCheckFileExists (p @ ''.json'') e))"
    unfolding NewConfig_def Let_def GetPath_def Join2 s
    by (cases "afero_Exists fs (p @ ''.json'')") (simp add: p [symmetric])
  show "\<not> probe_fails fs (p @ ''.json'') \<Longrightarrow> snd (afero_Exists fs (p @ ''.yaml'')) = Some e \<Longrightarrow>
      NewConfig L fs opts_Path = (fs, None, Some (ErrCheckFileExists (p @ ''.yaml'') e))"
    unfolding NewConfig_def Let_def GetPath_def Join2 s
    by (cases "afero_Exists fs (p @ ''.yaml'')")
      (simp add: p [symmetric] afero_Exists_eq [of fs "p @ ''.json''"])
  show "\<not> probe_fails fs (p @ ''.json'') \<Longrightarrow> \<not> probe_fails fs (p @ ''.yaml'') \<Longrightarrow>
      snd (afero_Exists fs (p @ ''.toml'')) = Some e \<Longrightarrow>
      NewConfig L fs opts_Path = (fs, None, Some (ErrCheckFileExists (p @ ''.toml'') e))"
    unfolding NewConfig_def Let_def GetPath_def Join2 s
    by (cases "afero_Exists fs (p @ ''.toml'')")
      (simp add: p [symmetric] afero_Exists_eq [of fs "p @ ''.json''"]
        afero_Exists_eq [of fs "p @ ''.yaml''"])
qed

lemma probe_fails_iff: "probe_fails fs q \<longleftrightarrow> snd (afero_Exists fs q) \<noteq> None"
  by (simp add: afero_Exists_eq)

text \<open>
  Claim C8, amended. \<open>path\<close> is the path given, without its extension. The three
  existence probes run in the order \<open>path.json\<close>, \<open>path.yaml\<close>, \<open>path.toml\<close>, and
  \<open>NewConfig\<close> returns the error of the first probe that fails, wrapped in
  \<open>ErrCheckFileExists\<close> with the path probed. When none of the three probes fails and at
  least two of the files are present (any two of them, or all three), \<open>NewConfig\<close> fails
  with \<open>ErrMultipleConfigs\<close>, whatever the files hold. In each of these cases the
  filesystem is left as it was and no configuration is returned.
\<close>

theorem NewConfig_multiple_configs:
  "p = strings_TrimSuffix opts_Path (path_Ext opts_Path) \<longrightarrow>
     (snd (afero_Exists fs (p @ ''.json'')) = Some e \<longrightarrow>
        NewConfig L fs opts_Path = (fs, None, Some (ErrCheckFileExists (p @ ''.json'') e)))
   \<and> (\<not> probe_fails fs (p @ ''.json'') \<and> snd (afero_Exists fs (p @ ''.yaml'')) = Some e \<longrightarrow>
        NewConfig L fs opts_Path = (fs, None, Some (ErrCheckFileExists (p @ ''.yaml'') e)))
   \<and> (\<not> probe_fails fs (p @ ''.json'') \<and> \<not> probe_fails fs (p @ ''.yaml'')
      \<and> snd (afero_Exists fs (p @ ''.toml'')) = Some e \<longrightarrow>
        NewConfig L fs opts_Path = (fs, None, Some (ErrCheckFileExists (p @ ''.toml'') e)))
   \<and> (probe_fails fs q \<longleftrightarrow> snd (afero_Exists fs q) \<noteq> None)
   \<and> (\<not> probe_fails fs (p @ ''.json'') \<and> \<not> probe_fails fs (p @ ''.yaml'')
      \<and> \<not> probe_fails fs (p @ ''.toml'')
      \<and> (file_exists fs (p @ ''.json'') \<and> file_exists fs (p @ ''.yaml'')
         \<or> file_exists fs (p @ ''.json'') \<and> file_exists fs (p @ ''.toml'')
         \<or> file_exists fs (p @ ''.yaml'') \<and> file_exists fs (p @ ''.toml''))
      \<longrightarrow> NewConfig L fs opts_Path = (fs, None, Some ErrMultipleConfigs))"
proof (intro impI conjI)
  assume p: "p = strings_TrimSuffix opts_Path (path_Ext opts_Path)"
  {
    assume "snd (afero_Exists fs (p @ ''.json'')) = Some e"
    then show "NewConfig L fs opts_Path
        = (fs, None, Some (ErrCheckFileExists (p @ ''.json'') e))"
      by (rule NewConfig_probe_error(1) [OF p])
  }
  {
    assume "\<not> probe_fails fs (p @ ''.json'') \<and> snd (afero_Exists fs (p @ ''.yaml'')) = Some e"
    then show "NewConfig L fs opts_Path
        = (fs, None, Some (ErrCheckFileExists (p @ ''.yaml'') e))"
      using NewConfig_probe_error(2) [OF p] by blast
  }
  {
    assume "\<not> probe_fails fs (p @ ''.json'') \<and> \<not> probe_fails fs (p @ ''.yaml'')
      \<and> snd (afero_Exists fs (p @ ''.toml'')) = Some e"
    then show "NewConfig L fs opts_Path
        = (fs, None, Some (ErrCheckFileExists (p @ ''.toml'') e))"
      using NewConfig_probe_error(3) [OF p] by blast
  }
  show "probe_fails fs q \<longleftrightarrow> snd (afero_Exists fs q) \<noteq> None"
    by (rule probe_fails_iff)
  {
    assume "\<not> probe_fails fs (p @ ''.json'') \<and> \<not> probe_fails fs (p @ ''.yaml'')
      \<and> \<not> probe_fails fs (p @ ''.toml'')
      \<and> (file_exists fs (p @ ''.json'') \<and> file_exists fs (p @ ''.yaml'')
         \<or> file_exists fs (p @ ''.json'') \<and> file_exists fs (p @ ''.toml'')
         \<or> file_exists fs (p @ ''.yaml'') \<and> file_exists fs (p @ ''.toml''))"
    then show "NewConfig L fs opts_Path = (fs, None, Some ErrMultipleConfigs)"
      using NewConfig_multiple [OF p, of fs L] by blast
  }
qed

theorem NewConfig_multiple_configs_witness:
  "''cfg'' = strings_TrimSuffix ''cfg.yml'' (path_Ext ''cfg.yml'')
   \<and> snd (afero_Exists \<lparr>entries = (\<lambda>p. if p = ''cfg.json'' then Some Blocked
                                         else if p = ''cfg.yaml'' \<or> p = ''cfg.toml''
                                         then Some (File ''x'') else None),
                         writable = (\<lambda>p. True)\<rparr> (''cfg'' @ ''.json''))
       = Some (LibError ''stat'')
   \<and> NewConfig null_codecs
        \<lparr>entries = (\<lambda>p. if p = ''cfg.json'' then Some Blocked
                         else if p = ''cfg.yaml'' \<or> p = ''cfg.toml''
                         then Some (File ''x'') else None),
         writable = (\<lambda>p. True)\<rparr> ''cfg.yml''
     = (\<lparr>entries = (\<lambda>p. if p = ''cfg.json'' then Some Blocked
                         else if p = ''cfg.yaml'' \<or> p = ''cfg.toml''
                         then Some (File ''x'') else None),
         writable = (\<lambda>p. True)\<rparr>, None,
        Some (ErrCheckFileExists (''cfg'' @ ''.json'') (LibError ''stat'')))
   \<and> \<not> probe_fails \<lparr>entries = (\<lambda>p. if p = ''cfg.yaml'' then Some Blocked
                                     else if p = ''cfg.json'' \<or> p = ''cfg.toml''
                                     then Some (File ''x'') else None),
                       writable = (\<lambda>p. True)\<rparr> (''cfg'' @ ''.json'')
   \<and> snd (afero_Exists \<lparr>entries = (\<lambda>p. if p = ''cfg.yaml'' then Some Blocked
                                         else if p = ''cfg.json'' \<or> p = ''cfg.toml''
                                         then Some (File ''x'') else None),
                         writable = (\<lambda>p. True)\<rparr> (''cfg'' @ ''.yaml''))
       = Some (LibError ''stat'')
   \<and> NewConfig null_codecs
        \<lparr>entries = (\<lambda>p. if p = ''cfg.yaml'' then Some Blocked
                         else if p = ''cfg.json'' \<or> p = ''cfg.toml''
                         then Some (File ''x'') else None),
         writable = (\<lambda>p. True)\<rparr> ''cfg.yml''
     = (\<lparr>entries = (\<lambda>p. if p = ''cfg.yaml'' then Some Blocked
                         else if p = ''cfg.json'' \<or> p = ''cfg.toml''
                         then Some (File ''x'') else None),
         writable = (\<lambda>p. True)\<rparr>, None,
        Some (ErrCheckFileExists (''cfg'' @ ''.yaml'') (LibError ''stat'')))
   \<and> \<not> probe_fails \<lparr>entries = (\<lambda>p. if p = ''cfg.toml'' then Some Blocked
                                     else if p = ''cfg.json'' then Some (File ''x'') else None),
                       writable = (\<lambda>p. True)\<rparr> (''cfg'' @ ''.json'')
   \<and> \<not> probe_fails \<lparr>entries = (\<lambda>p. if p = ''cfg.toml'' then Some Blocked
                                     else if p = ''cfg.json'' then Some (File ''x'') else None),
                       writable = (\<lambda>p. True)\<rparr> (''cfg'' @ ''.yaml'')
   \<and> snd (afero_Exists \<lparr>entries = (\<lambda>p. if p = ''cfg.toml'' then Some Blocked
                                         else if p = ''cfg.json'' then Some (File ''x'') else None),
                         writable = (\<lambda>p. True)\<rparr> (''cfg'' @ ''.toml''))
       = Some (LibError ''stat'')
   \<and> NewConfig null_codecs
        \<lparr>entries = (\<lambda>p. if p = ''cfg.toml'' then Some Blocked
                         else if p = ''cfg.json'' then Some (File ''x'') else None),
         writable = (\<lambda>p. True)\<rparr> ''cfg.yml''
     = (\<lparr>entries = (\<lambda>p. if p = ''cfg.toml'' then Some Blocked
                         else if p = ''cfg.json'' then Some (File ''x'') else None),
         writable = (\<lambda>p. True)\<rparr>, None,
        Some (ErrCheckFileExists (''cfg'' @ ''.toml'') (LibError ''stat'')))
   \<and> \<not> probe_fails \<lparr>entries = (\<lambda>p. if p = ''cfg.json'' \<or> p = ''cfg.toml'' then Some (File ''x'')
                                     else None), writable = (\<lambda>p. True)\<rparr> (''cfg'' @ ''.json'')
   \<and> \<not> probe_fails \<lparr>entries = (\<lambda>p. if p = ''cfg.json'' \<or> p = ''cfg.toml'' then Some (File ''x'')
                                     else None), writable = (\<lambda>p. True)\<rparr> (''cfg'' @ ''.yaml'')
   \<and> \<not> probe_fails \<lparr>entries = (\<lambda>p. if p = ''cfg.json'' \<or> p = ''cfg.toml'' then Some (File ''x'')
                                     else None), writable = (\<lambda>p. True)\<rparr> (''cfg'' @ ''.toml'')
   \<and> file_exists \<lparr>entries = (\<lambda>p. if p = ''cfg.json'' \<or> p = ''cfg.toml'' then Some (File ''x'')
                                     else None), writable = (\<lambda>p. True)\<rparr> (''cfg'' @ ''.json'')
   \<and> file_exists \<lparr>entries = (\<lambda>p. if p = ''cfg.json'' \<or> p = ''cfg.toml'' then Some (File ''x'')
                                     else None), writable = (\<lambda>p. True)\<rparr> (''cfg'' @ ''.toml'')
   \<and> NewConfig null_codecs
        \<lparr>entries = (\<lambda>p. if p = ''cfg.json'' \<or> p = ''cfg.toml'' then Some (File ''x'')
                         else None), writable = (\<lambda>p. True)\<rparr> ''cfg.yml''
     = (\<lparr>entries = (\<lambda>p. if p = ''cfg.json'' \<or> p = ''cfg.toml'' then Some (File ''x'')
                         else None), writable = (\<lambda>p. True)\<rparr>, None, Some ErrMultipleConfigs)"
proof -
  let ?f1 = "\<lparr>entries = (\<lambda>p. if p = ''cfg.json'' then Some Blocked
                         else if p = ''cfg.yaml'' \<or> p = ''cfg.toml''
                         then Some (File ''x'') else None),
         writable = (\<lambda>p. True)\<rparr>"
  let ?f2 = "\<lparr>entries = (\<lambda>p. if p = ''cfg.yaml'' then Some Blocked
                         else if p = ''cfg.json'' \<or> p = ''cfg.toml''
                         then Some (File ''x'') else None),
         writable = (\<lambda>p. True)\<rparr>"
  let ?f3 = "\<lparr>entries = (\<lambda>p. if p = ''cfg.toml'' then Some Blocked
                         else if p = ''cfg.json'' then Some (File ''x'') else None),
         writable = (\<lambda>p. True)\<rparr>"
  let ?f4 = "\<lparr>entries = (\<lambda>p. if p = ''cfg.json'' \<or> p = ''cfg.toml'' then Some (File ''x'')
                         else None), writable = (\<lambda>p. True)\<rparr>"
  let ?e = "LibError ''stat''"
  have p: "''cfg'' = strings_TrimSuffix ''cfg.yml'' (path_Ext ''cfg.yml'')"
    by (simp add: path_Ext_def strings_TrimSuffix_def strings_HasSuffix_def)
  have h1: "snd (afero_Exists ?f1 (''cfg'' @ ''.json'')) = Some ?e"
    by (simp add: afero_Exists_def)
  have h2: "\<not> probe_fails ?f2 (''cfg'' @ ''.json'')"
    "snd (afero_Exists ?f2 (''cfg'' @ ''.yaml'')) = Some ?e"
    by (simp_all add: afero_Exists_def probe_fails_def)
  have h3: "\<not> probe_fails ?f3 (''cfg'' @ ''.json'')" "\<not> probe_fails ?f3 (''cfg'' @ ''.yaml'')"
    "snd (afero_Exists ?f3 (''cfg'' @ ''.toml'')) = Some ?e"
    by (simp_all add: afero_Exists_def probe_fails_def)
  have h4: "\<not> probe_fails ?f4 (''cfg'' @ ''.json'')" "\<not> probe_fails ?f4 (''cfg'' @ ''.yaml'')"
    "\<not> probe_fails ?f4 (''cfg'' @ ''.toml'')"
    "file_exists ?f4 (''cfg'' @ ''.json'')" "file_exists ?f4 (''cfg'' @ ''.toml'')"
    by (simp_all add: probe_fails_def file_exists_def)
  from NewConfig_multiple_configs [where p = "''cfg''" and opts_Path = "''cfg.yml''"
      and fs = ?f1 and e = ?e and L = null_codecs] p h1
  have c1: "NewConfig null_codecs ?f1 ''cfg.yml''
      = (?f1, None, Some (ErrCheckFileExists (''cfg'' @ ''.json'') ?e))"
    by blast
  from NewConfig_multiple_configs [where p = "''cfg''" and opts_Path = "''cfg.yml''"
      and fs = ?f2 and e = ?e and L = null_codecs] p h2
  have c2: "NewConfig null_codecs ?f2 ''cfg.yml''
      = (?f2, None, Some (ErrCheckFileExists (''cfg'' @ ''.yaml'') ?e))"
    by blast
  from NewConfig_multiple_configs [where p = "''cfg''" and opts_Path = "''cfg.yml''"
      and fs = ?f3 and e = ?e and L = null_codecs] p h3
  have c3: "NewConfig null_codecs ?f3 ''cfg.yml''
      = (?f3, None, Some (ErrCheckFileExists (''cfg'' @ ''.toml'') ?e))"
    by blast
  from NewConfig_multiple_configs [where p = "''cfg''" and opts_Path = "''cfg.yml''"
      and fs = ?f4 and e = ?e and L = null_codecs] p h4
  have c4: "NewConfig null_codecs ?f4 ''cfg.yml'' = (?f4, None, Some ErrMultipleConfigs)"
    by blast
  from p h1 c1 h2 c2 h3 c3 h4 c4 show ?thesis by (intro conjI)
qed

lemma NewConfig_decode_success:
  assumes "NewConfig_decode L fs cfg bytes = (fs1, Some cfg1, None)"
  shows "fs1 = fs \<and> Path cfg1 = Path cfg \<and> Format cfg1 = Format cfg
     \<and> (Format cfg = JSON \<or> Format cfg = YAML \<or> Format cfg = TOML)"
  using assms
  by (auto simp: NewConfig_decode_def Let_def GetFormat_def
      split: if_splits prod.splits option.splits sum.splits)

lemma NewConfig_read_success:
  assumes "NewConfig_read L fs cfg = (fs1, Some cfg1, None)"
  shows "Path cfg1 = Path cfg \<and> Format cfg1 = Format cfg
     \<and> (Format cfg = JSON \<or> Format cfg = YAML \<or> Format cfg = TOML)
     \<and> file_exists fs1 (Path cfg @ ''.'' @ ConfigFormat_String (Format cfg))
     \<and> writable fs1 = writable fs
     \<and> (\<forall>q. q \<noteq> Path cfg @ ''.'' @ ConfigFormat_String (Format cfg) \<longrightarrow>
           entries fs1 q = entries fs q)"
proof (cases "entries fs (Path cfg @ ''.'' @ ConfigFormat_String (Format cfg))")
  case None
  with assms obtain fs' where
    c: "Fs_Create fs (Path cfg @ ''.'' @ ConfigFormat_String (Format cfg)) = (fs', None)"
    and d: "NewConfig_decode L fs' cfg [] = (fs1, Some cfg1, None)"
    by (auto simp: NewConfig_read_def Let_def GetPath_def GetFormat_def afero_ReadFile_def
        os_IsNotExist_def split: prod.splits option.splits)
  from c have fs': "fs' = fs\<lparr>entries := (entries fs)
      (Path cfg @ ''.'' @ ConfigFormat_String (Format cfg) \<mapsto> File [])\<rparr>"
    by (auto simp: Fs_Create_def split: if_splits)
  from NewConfig_decode_success [OF d] fs' show ?thesis
    by (simp add: file_exists_def)
next
  case (Some n)
  show ?thesis
  proof (cases n)
    case (File b)
    with Some assms have d: "NewConfig_decode L fs cfg b = (fs1, Some cfg1, None)"
      by (simp add: NewConfig_read_def Let_def GetPath_def GetFormat_def afero_ReadFile_def)
    from NewConfig_decode_success [OF d] Some File show ?thesis
      by (simp add: file_exists_def)
  next
    case Blocked
    with Some assms show ?thesis
      by (simp add: NewConfig_read_def Let_def GetPath_def GetFormat_def afero_ReadFile_def
          os_IsNotExist_def)
  qed
qed

lemma NewConfig_success:
  assumes "NewConfig L fs opts_Path = (fs1, Some cfg, None)"
  shows "Path cfg = strings_TrimSuffix opts_Path (path_Ext opts_Path)
     \<and> (Format cfg = JSON \<or> Format cfg = YAML \<or> Format cfg = TOML)
     \<and> file_exists fs1 (Path cfg @ ''.'' @ ConfigFormat_String (Format cfg))
     \<and> writable fs1 = writable fs"
proof -
  let ?c = "\<lparr>Path = strings_TrimSuffix opts_Path (path_Ext opts_Path), Format = Unknown,
              Roles = []\<rparr>"
  from assms obtain f where
    r: "NewConfig_read L fs (SetFormat ?c f) = (fs1, Some cfg, None)"
    by (auto simp: NewConfig_def Let_def split: prod.splits option.splits if_splits)
  from NewConfig_read_success [OF r] show ?thesis
    by (simp add: SetFormat_def)
qed

lemma format_ext_not_UNKNOWN:
  "Format cfg = JSON \<or> Format cfg = YAML \<or> Format cfg = TOML \<Longrightarrow>
     Path cfg @ ''.'' @ ConfigFormat_String (Format cfg) \<noteq> Path cfg @ ''.UNKNOWN''"
  by (auto simp: ConfigFormat_String_def format_defs)

lemma Save_Unknown:
  "Format c = Unknown \<Longrightarrow> Save L c fs = afero_WriteFile fs (Path c @ ''.UNKNOWN'') []"
  by (simp add: Save_def Let_def GetFormat_def GetPath_def ConfigFormat_String_def format_defs)

lemma convertCmd_Unknown:
  assumes args: "args \<noteq> []" and u: "snd user_Current = None"
    and n: "NewConfig L fs (path_Join (fst user_Current) DefaultConfigFilePath)
        = (fs1, Some cfg, None)"
    and f: "FromExt 0 (args ! 0) = Unknown"
    and w: "writable fs1 (Path cfg @ ''.UNKNOWN'')"
      "\<not> probe_fails fs1 (Path cfg @ ''.UNKNOWN'')"
      "writable fs1 (Path cfg @ ''.'' @ ConfigFormat_String (Format cfg))"
  shows "convertCmd L user_Current fs args =
      Returns (fs1\<lparr>entries := ((entries fs1)(Path cfg @ ''.UNKNOWN'' \<mapsto> File []))
          (Path cfg @ ''.'' @ ConfigFormat_String (Format cfg) := None)\<rparr>, None)"
proof -
  note s = NewConfig_success [OF n]
  from s have ne: "Path cfg @ ''.'' @ ConfigFormat_String (Format cfg) \<noteq> Path cfg @ ''.UNKNOWN''"
    by (intro format_ext_not_UNKNOWN) blast
  from s obtain b where
    old: "entries fs1 (Path cfg @ ''.'' @ ConfigFormat_String (Format cfg)) = Some (File b)"
    by (auto simp: file_exists_def split: option.splits node.splits)
  have sv: "Save L (SetFormat cfg Unknown) fs1 =
      (fs1\<lparr>entries := (entries fs1)(Path cfg @ ''.UNKNOWN'' \<mapsto> File [])\<rparr>, None)"
    using w by (simp add: Save_Unknown SetFormat_def afero_WriteFile_def probe_fails_def)
  obtain h where uc: "user_Current = (h, None)" using u by (cases user_Current) auto
  have rm: "Fs_Remove (fs1\<lparr>entries := (entries fs1)(Path cfg @ ''.UNKNOWN'' \<mapsto> File [])\<rparr>)
        (Path cfg @ ''.'' @ ConfigFormat_String (Format cfg))
      = (fs1\<lparr>entries := ((entries fs1)(Path cfg @ ''.UNKNOWN'' \<mapsto> File []))
          (Path cfg @ ''.'' @ ConfigFormat_String (Format cfg) := None)\<rparr>, None)"
    using ne old w by (simp add: Fs_Remove_def)
  from args n f sv rm show ?thesis
    using uc by (simp add: convertCmd_def Let_def GetPath_def GetFormat_def)
qed


text \<open>
  Claim C10. For a configuration whose format is \<open>Unknown\<close>, \<open>Save\<close> marshals
  nothing and is exactly the write of no bytes to \<open>path.UNKNOWN\<close>: it never fails with
  an unsupported-format or a marshal error, and when the write is possible it succeeds
  and leaves a zero-byte file there. Consequently \<open>convertCmd\<close> with an extension
  \<open>FromExt\<close> does not recognise, after a successful load and when the write and the
  removal are possible, ends without error with an empty \<open>path.UNKNOWN\<close> and without
  the configuration file it had loaded.
\<close>

theorem Save_Unknown_writes_empty_file:
  "(Format c = Unknown \<longrightarrow>
       Save L c fs = afero_WriteFile fs (Path c @ ''.UNKNOWN'') []
     \<and> snd (Save L c fs) \<noteq> Some ErrUnsupportedConfigFormat
     \<and> snd (Save L c fs) \<noteq> Some (ErrMarshal e)
     \<and> (writable fs (Path c @ ''.UNKNOWN'') \<and> \<not> probe_fails fs (Path c @ ''.UNKNOWN'') \<longrightarrow>
          Save L c fs = (fs\<lparr>entries := (entries fs)(Path c @ ''.UNKNOWN'' \<mapsto> File [])\<rparr>, None)))
   \<and> (args \<noteq> [] \<and> snd user_Current = None
      \<and> NewConfig L fs0 (path_Join (fst user_Current) DefaultConfigFilePath) = (fs1, Some cfg, None)
      \<and> FromExt 0 (args ! 0) = Unknown
      \<and> writable fs1 (Path cfg @ ''.UNKNOWN'') \<and> \<not> probe_fails fs1 (Path cfg @ ''.UNKNOWN'')
      \<and> writable fs1 (Path cfg @ ''.'' @ ConfigFormat_String (Format cfg)) \<longrightarrow>
        file_exists fs1 (Path cfg @ ''.'' @ ConfigFormat_String (Format cfg))
      \<and> convertCmd L user_Current fs0 args =
          Returns (fs1\<lparr>entries := ((entries fs1)(Path cfg @ ''.UNKNOWN'' \<mapsto> File []))
              (Path cfg @ ''.'' @ ConfigFormat_String (Format cfg) := None)\<rparr>, None)
      \<and> file_exists (fs1\<lparr>entries := ((entries fs1)(Path cfg @ ''.UNKNOWN'' \<mapsto> File []))
              (Path cfg @ ''.'' @ ConfigFormat_String (Format cfg) := None)\<rparr>)
           (Path cfg @ ''.UNKNOWN'')
      \<and> entries (fs1\<lparr>entries := ((entries fs1)(Path cfg @ ''.UNKNOWN'' \<mapsto> File []))
              (Path cfg @ ''.'' @ ConfigFormat_String (Format cfg) := None)\<rparr>)
           (Path cfg @ ''.UNKNOWN'') = Some (File [])
      \<and> entries (fs1\<lparr>entries := ((entries fs1)(Path cfg @ ''.UNKNOWN'' \<mapsto> File []))
              (Path cfg @ ''.'' @ ConfigFormat_String (Format cfg) := None)\<rparr>)
           (Path cfg @ ''.'' @ ConfigFormat_String (Format cfg)) = None)"
proof (intro conjI impI)
  assume u: "Format c = Unknown"
  show s: "Save L c fs = afero_WriteFile fs (Path c @ ''.UNKNOWN'') []"
    using u by (rule Save_Unknown)
  show "snd (Save L c fs) \<noteq> Some ErrUnsupportedConfigFormat"
    by (simp add: s afero_WriteFile_def)
  show "snd (Save L c fs) \<noteq> Some (ErrMarshal e)"
    by (simp add: s afero_WriteFile_def)
  assume "writable fs (Path c @ ''.UNKNOWN'') \<and> \<not> probe_fails fs (Path c @ ''.UNKNOWN'')"
  then show "Save L c fs =
      (fs\<lparr>entries := (entries fs)(Path c @ ''.UNKNOWN'' \<mapsto> File [])\<rparr>, None)"
    by (simp add: s afero_WriteFile_def probe_fails_def)
next
  assume h: "args \<noteq> [] \<and> snd user_Current = None
      \<and> NewConfig L fs0 (path_Join (fst user_Current) DefaultConfigFilePath) = (fs1, Some cfg, None)
      \<and> FromExt 0 (args ! 0) = Unknown
      \<and> writable fs1 (Path cfg @ ''.UNKNOWN'') \<and> \<not> probe_fails fs1 (Path cfg @ ''.UNKNOWN'')
      \<and> writable fs1 (Path cfg @ ''.'' @ ConfigFormat_String (Format cfg))"
  then have n: "NewConfig L fs0 (path_Join (fst user_Current) DefaultConfigFilePath)
      = (fs1, Some cfg, None)" by blast
  note s = NewConfig_success [OF n]
  from s show "file_exists fs1 (Path cfg @ ''.'' @ ConfigFormat_String (Format cfg))"
    by blast
  from s have ne: "Path cfg @ ''.'' @ ConfigFormat_String (Format cfg) \<noteq> Path cfg @ ''.UNKNOWN''"
    by (intro format_ext_not_UNKNOWN) blast
  from h show "convertCmd L user_Current fs0 args =
          Returns (fs1\<lparr>entries := ((entries fs1)(Path cfg @ ''.UNKNOWN'' \<mapsto> File []))
              (Path cfg @ ''.'' @ ConfigFormat_String (Format cfg) := None)\<rparr>, None)"
    by (intro convertCmd_Unknown) blast+
  show "file_exists (fs1\<lparr>entries := ((entries fs1)(Path cfg @ ''.UNKNOWN'' \<mapsto> File []))
              (Path cfg @ ''.'' @ ConfigFormat_String (Format cfg) := None)\<rparr>)
           (Path cfg @ ''.UNKNOWN'')"
    using ne by (simp add: file_exists_def)
  show "entries (fs1\<lparr>entries := ((entries fs1)(Path cfg @ ''.UNKNOWN'' \<mapsto> File []))
              (Path cfg @ ''.'' @ ConfigFormat_String (Format cfg) := None)\<rparr>)
           (Path cfg @ ''.UNKNOWN'') = Some (File [])"
    using ne by simp
  show "entries (fs1\<lparr>entries := ((entries fs1)(Path cfg @ ''.UNKNOWN'' \<mapsto> File []))
              (Path cfg @ ''.'' @ ConfigFormat_String (Format cfg) := None)\<rparr>)
           (Path cfg @ ''.'' @ ConfigFormat_String (Format cfg)) = None"
    by simp
qed

lemma example_load:
  "NewConfig null_codecs
     \<lparr>entries = (\<lambda>p. if p = ''/home/u/.config/awssume.yaml'' then Some (File ''roles: []'')
                      else None), writable = (\<lambda>p. True)\<rparr>
     (path_Join (fst (''/home/u'', None :: error option)) DefaultConfigFilePath)
   = (\<lparr>entries = (\<lambda>p. if p = ''/home/u/.config/awssume.yaml'' then Some (File ''roles: []'')
                      else None), writable = (\<lambda>p. True)\<rparr>,
      Some \<lparr>Path = ''/home/u/.config/awssume'', Format = YAML, Roles = []\<rparr>, None)"
  by (simp add: path_Join_def path_Clean_def DefaultConfigFilePath_def Let_def
      NewConfig_def NewConfig_read_def NewConfig_decode_def null_codecs_def
      afero_Exists_def afero_ReadFile_def GetPath_def GetFormat_def SetFormat_def
      ConfigFormat_String_def format_defs path_Ext_def strings_TrimSuffix_def
      strings_HasSuffix_def)

theorem Save_Unknown_writes_empty_file_witness:
  "Format \<lparr>Path = ''cfg'', Format = Unknown, Roles = []\<rparr> = Unknown
   \<and> Save null_codecs \<lparr>Path = ''cfg'', Format = Unknown, Roles = []\<rparr>
        \<lparr>entries = (\<lambda>p. None), writable = (\<lambda>p. True)\<rparr>
      = (\<lparr>entries = (\<lambda>p. None)(''cfg.UNKNOWN'' \<mapsto> File []), writable = (\<lambda>p. True)\<rparr>, None)
   \<and> FromExt 0 ([''xml''] ! 0) = Unknown
   \<and> convertCmd null_codecs (''/home/u'', None)
        \<lparr>entries = (\<lambda>p. if p = ''/home/u/.config/awssume.yaml'' then Some (File ''roles: []'')
                         else None), writable = (\<lambda>p. True)\<rparr> [''xml'']
      = Returns (\<lparr>entries = ((\<lambda>p. if p = ''/home/u/.config/awssume.yaml''
                             then Some (File ''roles: []'') else None)
                       (''/home/u/.config/awssume.UNKNOWN'' \<mapsto> File []))
                       (''/home/u/.config/awssume.yaml'' := None),
          writable = (\<lambda>p. True)\<rparr>, None)"
proof -
  let ?c = "\<lparr>Path = ''cfg'', Format = Unknown, Roles = []\<rparr>"
  let ?e = "\<lparr>entries = (\<lambda>p. None), writable = (\<lambda>p. True)\<rparr>"
  let ?fs = "\<lparr>entries = (\<lambda>p. if p = ''/home/u/.config/awssume.yaml''
                              then Some (File ''roles: []'') else None),
              writable = (\<lambda>p. True)\<rparr>"
  let ?cfg = "\<lparr>Path = ''/home/u/.config/awssume'', Format = YAML, Roles = []\<rparr>"
  have f: "Format ?c = Unknown" by simp
  have w: "writable ?e (Path ?c @ ''.UNKNOWN'') \<and> \<not> probe_fails ?e (Path ?c @ ''.UNKNOWN'')"
    by (simp add: probe_fails_def)
  have x: "FromExt 0 ([''xml''] ! 0) = Unknown"
    by (simp add: FromExt_def strings_TrimPrefix_def strings_HasPrefix_def)
  have h: "[''xml''] \<noteq> [] \<and> snd (''/home/u'', None :: error option) = None
      \<and> NewConfig null_codecs ?fs
          (path_Join (fst (''/home/u'', None :: error option)) DefaultConfigFilePath)
        = (?fs, Some ?cfg, None)
      \<and> FromExt 0 ([''xml''] ! 0) = Unknown
      \<and> writable ?fs (Path ?cfg @ ''.UNKNOWN'') \<and> \<not> probe_fails ?fs (Path ?cfg @ ''.UNKNOWN'')
      \<and> writable ?fs (Path ?cfg @ ''.'' @ ConfigFormat_String (Format ?cfg))"
    using example_load x by (simp add: probe_fails_def)
  note t = Save_Unknown_writes_empty_file [where c = ?c and L = null_codecs and fs = ?e
      and e = MarshalerError and args = "[''xml'']" and user_Current = "(''/home/u'', None)"
      and ?fs0.0 = ?fs and ?fs1.0 = ?fs and cfg = ?cfg]
  from t f w have 1: "Save null_codecs ?c ?e
      = (?e\<lparr>entries := (entries ?e)(Path ?c @ ''.UNKNOWN'' \<mapsto> File [])\<rparr>, None)"
    by blast
  from t h have 2: "convertCmd null_codecs (''/home/u'', None) ?fs [''xml''] =
          Returns (?fs\<lparr>entries := ((entries ?fs)(Path ?cfg @ ''.UNKNOWN'' \<mapsto> File []))
              (Path ?cfg @ ''.'' @ ConfigFormat_String (Format ?cfg) := None)\<rparr>, None)"
    by blast
  from f x 1 2 show ?thesis
    by (simp add: ConfigFormat_String_def format_defs)
qed

text \<open>
  The YAML methods of \<open>ARN\<close> are inverse to each other on the structures that
  \<open>ParseARN\<close> reproduces: what \<open>MarshalYAML\<close> returns is the scalar that
  \<open>UnmarshalYAML\<close> parses. The JSON methods are not: \<open>MarshalJSON\<close> returns the same
  bare text, which is not JSON.
\<close>

lemma YAML_methods_round_trip:
  assumes "CHR '':'' \<notin> set (Partition a)" "CHR '':'' \<notin> set (Service a)"
    "CHR '':'' \<notin> set (Region a)" "CHR '':'' \<notin> set (AccountID a)"
  shows "ARN_UnmarshalYAML b (fst (ARN_MarshalYAML a)) = (a, None)"
  using assms
  by (simp add: ARN_UnmarshalYAML_def ARN_MarshalYAML_def ParseARN_eq ARN_String_def
      arn_Parse_String)

lemma scan_value_arn: "scan_value fuel (CHR ''a'' # cs) = None"
  by (cases fuel) (simp_all add: is_digit_def strings_HasPrefix_def)

lemma ARN_String_not_json: "\<not> json_valid (ARN_String a)"
  by (simp add: json_valid_def ARN_String_def arn_String_def skip_ws_def is_ws_def
      scan_value_arn)

lemma marshalerEncoder_ARN: "marshalerEncoder (Some a) = Some MarshalerError"
  by (simp add: marshalerEncoder_def ARN_MarshalJSON_def ARN_String_not_json)

lemma marshalerEncoder_cases:
  "marshalerEncoder v = (if v = None then None else Some MarshalerError)"
  by (cases v) (simp_all add: marshalerEncoder_ARN, simp add: marshalerEncoder_def)

lemma find_marshalerEncoder:
  "\<exists>r \<in> set roles. ARN r \<noteq> None \<Longrightarrow>
     List.find (\<lambda>e. e \<noteq> None) (map (\<lambda>r. marshalerEncoder (ARN r)) roles)
       = Some (Some MarshalerError)"
  by (induction roles) (auto simp: marshalerEncoder_cases)

lemma encoding_json_Marshal_fails:
  "\<exists>r \<in> set roles. ARN r \<noteq> None \<Longrightarrow>
     encoding_json_Marshal render roles = ([], Some MarshalerError)"
  unfolding encoding_json_Marshal_def by (simp only: find_marshalerEncoder option.case)

lemma Save_JSON_fails:
  assumes "Format c = JSON" and "\<exists>r \<in> set (Roles c). ARN r \<noteq> None"
  shows "Save (L\<lparr>json_Marshal := encoding_json_Marshal render\<rparr>) c fs
     = (fs, Some (ErrMarshal MarshalerError))"
  using assms
  by (simp add: Save_def Let_def GetFormat_def encoding_json_Marshal_fails)

text \<open>
  Claim C1. The round trip fails for JSON as soon as there is a role with a resource
  identifier: \<open>MarshalJSON\<close> returns the identifier as bare text (\<open>arn:aws:...\<close>, no
  quotes), which is not JSON, so \<open>json.Marshal\<close> fails, \<open>Save\<close> returns the marshal
  error and writes nothing. This holds whatever the other five library functions do,
  whatever \<open>json.Marshal\<close> writes when it succeeds, and on every filesystem.
\<close>

theorem Save_JSON_role_marshal_error:
  "Save (L\<lparr>json_Marshal := encoding_json_Marshal render\<rparr>)
     \<lparr>Path = ''cfg'', Format = JSON,
      Roles = [\<lparr>Alias = ''skunk'',
                ARN = Some \<lparr>Partition = ''aws'', Service = ''iam'', Region = [],
                            AccountID = ''000000000000'', Resource = ''role/skunk''\<rparr>,
                SessionName = ''sess''\<rparr>]\<rparr> fs
   = (fs, Some (ErrMarshal MarshalerError))
   \<and> ARN_MarshalJSON \<lparr>Partition = ''aws'', Service = ''iam'', Region = [],
                      AccountID = ''000000000000'', Resource = ''role/skunk''\<rparr>
     = (''arn:aws:iam::000000000000:role/skunk'', None)
   \<and> \<not> json_valid ''arn:aws:iam::000000000000:role/skunk''"
proof (intro conjI)
  show "Save (L\<lparr>json_Marshal := encoding_json_Marshal render\<rparr>)
     \<lparr>Path = ''cfg'', Format = JSON,
      Roles = [\<lparr>Alias = ''skunk'',
                ARN = Some \<lparr>Partition = ''aws'', Service = ''iam'', Region = [],
                            AccountID = ''000000000000'', Resource = ''role/skunk''\<rparr>,
                SessionName = ''sess''\<rparr>]\<rparr> fs
   = (fs, Some (ErrMarshal MarshalerError))"
    by (rule Save_JSON_fails) simp_all
  show a: "ARN_MarshalJSON \<lparr>Partition = ''aws'', Service = ''iam'', Region = [],
                      AccountID = ''000000000000'', Resource = ''role/skunk''\<rparr>
     = (''arn:aws:iam::000000000000:role/skunk'', None)"
    by (simp add: ARN_MarshalJSON_def ARN_String_def arn_String_def)
  from ARN_String_not_json [of "\<lparr>Partition = ''aws'', Service = ''iam'', Region = [],
                      AccountID = ''000000000000'', Resource = ''role/skunk''\<rparr>"]
  show "\<not> json_valid ''arn:aws:iam::000000000000:role/skunk''"
    by (simp add: ARN_String_def arn_String_def)
qed

end
